theory Spec2Isabelle
  imports Main "HOL-Library.Sublist"
begin

section \<open>Values and exceptions\<close>

text \<open>
  The values that reach the program come from the YAML and CWL loaders: null, booleans,
  numbers, strings, lists and dictionaries with string keys. A dictionary is an
  association list; a key is looked up with \<open>map_of\<close>. Numbers are integers: no
  modelled function looks inside a number. Strings are character lists and \<open>length\<close>
  counts characters, as Python's \<open>len\<close> does on the code points of a \<open>str\<close>.
  \<open>JObj c\<close> is an object of any other class, by the name of the class: what an engine
  hands back can be such an object.
\<close>

datatype jvalue =
    JNull
  | JBool bool
  | JNum int
  | JStr string
  | JList "jvalue list"
  | JDict "(string \<times> jvalue) list"
  | JObj string

type_synonym jdict = "(string \<times> jvalue) list"

text \<open>
  Exceptions are values. \<open>ValidationError m\<close> is pydantic's error for model \<open>m\<close>;
  \<open>EngineError s\<close> is an exception raised by one of the external engines, with its text.
\<close>

datatype error =
    KeyError string
  | TypeError string
  | AttributeError string
  | ValidationError string
  | EngineError string

text \<open>\<open>str(type(v))\<close> for the values above.\<close>

fun py_type_repr :: "jvalue \<Rightarrow> string" where
  "py_type_repr JNull = ''<class 'NoneType'>''"
| "py_type_repr (JBool b) = ''<class 'bool'>''"
| "py_type_repr (JNum n) = ''<class 'int'>''"
| "py_type_repr (JStr s) = ''<class 'str'>''"
| "py_type_repr (JList xs) = ''<class 'list'>''"
| "py_type_repr (JDict m) = ''<class 'dict'>''"
| "py_type_repr (JObj c) = ''<class '' @ [CHR 0x27] @ c @ [CHR 0x27] @ ''>''"

section \<open>error_models.py\<close>

record ErrorDetail =
  ed_detail :: string
  ed_pointer :: "string option"
  ed_parameter :: "string option"
  ed_header :: "string option"
  ed_code :: "string option"

text \<open>
  \<open>ErrorDetail(pointer=p, detail=d)\<close>. The field \<open>detail\<close> is \<open>constr(max_length=4096)\<close>
  and \<open>pointer\<close> is \<open>Optional[constr(max_length=1024)]\<close>: pydantic raises a validation
  error when \<open>d\<close> is not a string or one of the two is too long. Every caller passes a
  string as pointer.
\<close>

definition new_ErrorDetail :: "string \<Rightarrow> jvalue \<Rightarrow> error + ErrorDetail" where
  "new_ErrorDetail p d =
     (case d of
        JStr s \<Rightarrow>
          if 4096 < length s \<or> 1024 < length p then Inl (ValidationError ''ErrorDetail'')
          else Inr \<lparr>ed_detail = s, ed_pointer = Some p, ed_parameter = None,
                    ed_header = None, ed_code = None\<rparr>
      | _ \<Rightarrow> Inl (ValidationError ''ErrorDetail''))"

record ProblemDetails =
  pd_type :: "string option"
  pd_status :: "int option"
  pd_title :: "string option"
  pd_detail :: string
  pd_instance :: "string option"
  pd_code :: "string option"
  pd_errors :: "ErrorDetail list option"

text \<open>
  \<open>BusinessRuleViolation(errors=es)\<close>: \<open>type\<close>, \<open>status\<close>, \<open>title\<close> and \<open>detail\<close> take
  their \<open>Literal\<close> defaults; \<open>errors\<close> is declared with \<open>max_length=1000\<close>.
\<close>

definition BusinessRuleViolation :: "ErrorDetail list \<Rightarrow> error + ProblemDetails" where
  "BusinessRuleViolation es =
     (if 1000 < length es then Inl (ValidationError ''BusinessRuleViolation'')
      else Inr \<lparr>pd_type = Some ''https://problems-registry.smartbear.com/business-rule-violation'',
                pd_status = Some 422,
                pd_title = Some ''Business Rule Violation'',
                pd_detail = ''The request body is invalid and not meeting business rules.'',
                pd_instance = None,
                pd_code = None,
                pd_errors = Some es\<rparr>)"

section \<open>cql2_validator.py\<close>

record Cql2Query =
  cq_id :: string
  cq_cql2 :: jvalue
  cq_message :: string

text \<open>
  The pygeofilter parsers and the native evaluator are external. A parser returns the
  text of the exception it raised (\<open>Inl\<close>) or an abstract syntax tree; \<open>ast_truthy\<close> is
  Python's truth value of that tree (the test \<open>if ast:\<close>); \<open>evaluate E a data\<close> is
  \<open>self.evaluator.evaluate(a)(data)\<close>, which may raise.
\<close>

record 'ast cql2_engine =
  parse_cql2_text :: "string \<Rightarrow> string + 'ast"
  parse_cql2_json :: "jdict \<Rightarrow> string + 'ast"
  ast_truthy :: "'ast \<Rightarrow> bool"
  evaluate :: "'ast \<Rightarrow> jvalue \<Rightarrow> error + bool"

text \<open>
  The validator keeps its queries and the evaluator its constructor builds. The
  evaluator is the engine \<open>E\<close> given to \<open>validate_inputs\<close>: the model gives it no state of
  its own, so nothing below speaks about what an evaluator keeps from one call to the
  next.
\<close>

record Cql2Validator =
  cv_queries :: "Cql2Query list"

text \<open>\<open>errors_list.append(ErrorDetail(pointer=p, detail=d))\<close>\<close>

definition append_error :: "ErrorDetail list \<Rightarrow> string \<Rightarrow> jvalue \<Rightarrow> error + ErrorDetail list" where
  "append_error errors_list p d =
     (case new_ErrorDetail p d of Inl e \<Rightarrow> Inl e | Inr x \<Rightarrow> Inr (errors_list @ [x]))"

text \<open>The first half of the loop body: the parse, by the shape of \<open>filter.cql2\<close>.\<close>

definition cql2_parse ::
  "'ast cql2_engine \<Rightarrow> Cql2Query \<Rightarrow> ErrorDetail list \<Rightarrow> error + ('ast option \<times> ErrorDetail list)" where
  "cql2_parse E f errors_list =
     (case cq_cql2 f of
        JStr s \<Rightarrow>
          (case parse_cql2_text E s of
             Inr a \<Rightarrow> Inr (Some a, errors_list)
           | Inl e \<Rightarrow>
               (case append_error errors_list (cq_id f)
                       (JStr (''Filter does not look like a valid CQL2 Text encoded sentece: '' @ e)) of
                  Inl x \<Rightarrow> Inl x
                | Inr es \<Rightarrow> Inr (None, es)))
      | JDict m \<Rightarrow>
          (case parse_cql2_json E m of
             Inr a \<Rightarrow> Inr (Some a, errors_list)
           | Inl e \<Rightarrow>
               (case append_error errors_list (cq_id f)
                       (JStr (''Filter does not look like a valid CQL2 JSON encoded structure: '' @ e)) of
                  Inl x \<Rightarrow> Inl x
                | Inr es \<Rightarrow> Inr (None, es)))
      | other \<Rightarrow>
          (case append_error errors_list (cq_id f)
                  (JStr (''Filter is expressed in an unrecognizible format: '' @ py_type_repr other)) of
             Inl x \<Rightarrow> Inl x
           | Inr es \<Rightarrow> Inr (None, es)))"

text \<open>The second half: \<open>if ast:\<close> and the predicate.\<close>

definition cql2_check ::
  "'ast cql2_engine \<Rightarrow> jvalue \<Rightarrow> Cql2Query \<Rightarrow> 'ast option \<Rightarrow> ErrorDetail list \<Rightarrow> error + ErrorDetail list" where
  "cql2_check E data f ast errors_list =
     (case ast of
        None \<Rightarrow> Inr errors_list
      | Some a \<Rightarrow>
          if \<not> ast_truthy E a then Inr errors_list
          else (case evaluate E a data of
                  Inl x \<Rightarrow> Inl x
                | Inr True \<Rightarrow> Inr errors_list
                | Inr False \<Rightarrow> append_error errors_list (cq_id f) (JStr (cq_message f))))"

fun cql2_loop ::
  "'ast cql2_engine \<Rightarrow> jvalue \<Rightarrow> Cql2Query list \<Rightarrow> ErrorDetail list \<Rightarrow> error + ErrorDetail list" where
  "cql2_loop E data [] errors_list = Inr errors_list"
| "cql2_loop E data (f # fs) errors_list =
     (case cql2_parse E f errors_list of
        Inl x \<Rightarrow> Inl x
      | Inr (ast, es) \<Rightarrow>
          (case cql2_check E data f ast es of
             Inl x \<Rightarrow> Inl x
           | Inr es' \<Rightarrow> cql2_loop E data fs es'))"

text \<open>The end of both validators: \<open>if errors_list: return BusinessRuleViolation(...)\<close>.\<close>

definition report :: "ErrorDetail list \<Rightarrow> error + ProblemDetails option" where
  "report errors_list =
     (if errors_list \<noteq> [] then
        (case BusinessRuleViolation errors_list of Inl x \<Rightarrow> Inl x | Inr p \<Rightarrow> Inr (Some p))
      else Inr None)"

definition Cql2Validator_validate_inputs ::
  "'ast cql2_engine \<Rightarrow> Cql2Validator \<Rightarrow> jvalue \<Rightarrow> error + ProblemDetails option" where
  "Cql2Validator_validate_inputs E self data =
     (case cql2_loop E data (cv_queries self) [] of
        Inl x \<Rightarrow> Inl x
      | Inr errors_list \<Rightarrow> report errors_list)"

section \<open>rego_validator.py\<close>

text \<open>
  The regopy interpreter is external. The model keeps what the validator does to it: the
  modules added and the input set. \<open>rego_compile R name source\<close> is the exception
  \<open>add_module\<close> raises on that module, if any; \<open>rego_query R i q\<close> is the list of result
  rows of query \<open>q\<close> in interpreter state \<open>i\<close>, or the exception raised.

  \<open>expressions\<close> of a row is the list the validator reads: it tests it for emptiness and
  passes its first element as \<open>detail\<close>. The elements are Python values of whatever class
  the interpreter gives them: a string is \<open>JStr\<close>, an object of a class of the interpreter
  (an \<open>Expression\<close>, say) is \<open>JObj\<close>, and so on. Only a \<open>JStr\<close> passes the \<open>detail\<close>
  field of \<open>ErrorDetail\<close>.
\<close>

record Interpreter =
  it_modules :: "(string \<times> string) list"
  it_input :: "jvalue option"

record rego_result =
  expressions :: "jvalue list"

record rego_engine =
  rego_compile :: "string \<Rightarrow> string \<Rightarrow> error option"
  rego_query :: "Interpreter \<Rightarrow> string \<Rightarrow> error + rego_result list"

definition add_module :: "rego_engine \<Rightarrow> Interpreter \<Rightarrow> string \<Rightarrow> string \<Rightarrow> error + Interpreter" where
  "add_module R i name source =
     (case rego_compile R name source of
        Some e \<Rightarrow> Inl e
      | None \<Rightarrow> Inr (i\<lparr>it_modules := it_modules i @ [(name, source)]\<rparr>))"

definition set_input :: "Interpreter \<Rightarrow> jvalue \<Rightarrow> Interpreter" where
  "set_input i data = i\<lparr>it_input := Some data\<rparr>"

record RegoValidator =
  rv_rego :: Interpreter
  rv_queries :: "string list"

definition RegoValidator_init :: "rego_engine \<Rightarrow> string \<Rightarrow> string list \<Rightarrow> error + RegoValidator" where
  "RegoValidator_init R module queries =
     (case add_module R \<lparr>it_modules = [], it_input = None\<rparr> ''workflow'' module of
        Inl e \<Rightarrow> Inl e
      | Inr i \<Rightarrow> Inr \<lparr>rv_rego = i, rv_queries = queries\<rparr>)"

text \<open>The inner loop, over the result rows of one query.\<close>

fun rego_results_loop :: "string \<Rightarrow> rego_result list \<Rightarrow> ErrorDetail list \<Rightarrow> error + ErrorDetail list" where
  "rego_results_loop query [] errors_list = Inr errors_list"
| "rego_results_loop query (result # results) errors_list =
     (case expressions result of
        [] \<Rightarrow> rego_results_loop query results errors_list
      | e0 # _ \<Rightarrow>
          (case append_error errors_list query e0 of
             Inl x \<Rightarrow> Inl x
           | Inr es \<Rightarrow> rego_results_loop query results es))"

text \<open>The outer loop, over the declared queries.\<close>

fun rego_loop :: "rego_engine \<Rightarrow> Interpreter \<Rightarrow> string list \<Rightarrow> ErrorDetail list \<Rightarrow> error + ErrorDetail list" where
  "rego_loop R i [] errors_list = Inr errors_list"
| "rego_loop R i (query # queries) errors_list =
     (case rego_query R i query of
        Inl x \<Rightarrow> Inl x
      | Inr results \<Rightarrow>
          (case rego_results_loop query results errors_list of
             Inl x \<Rightarrow> Inl x
           | Inr es \<Rightarrow> rego_loop R i queries es))"

text \<open>
  \<open>validate_inputs\<close> changes the validator: the interpreter keeps the input. The new
  validator is returned with the result, also when the call raises.
\<close>

definition RegoValidator_validate_inputs ::
  "rego_engine \<Rightarrow> RegoValidator \<Rightarrow> jvalue \<Rightarrow> (error + ProblemDetails option) \<times> RegoValidator" where
  "RegoValidator_validate_inputs R self data =
     (let self' = self\<lparr>rv_rego := set_input (rv_rego self) data\<rparr> in
      (case rego_loop R (rv_rego self') (rv_queries self') [] of
         Inl x \<Rightarrow> Inl x
       | Inr errors_list \<Rightarrow> report errors_list,
       self'))"

section \<open>__init__.py: the hint model\<close>

text \<open>
  The workflow object comes from the external document loader; \<open>hints\<close> is absent or a
  list whose elements are dictionaries or opaque values. \<open>wf_inputs\<close> stands for the
  workflow's declared inputs, which only the external type converter reads.
\<close>

record Workflow =
  wf_id :: string
  wf_class :: string
  wf_cwlVersion :: string
  wf_inputs :: jvalue
  wf_hints :: "jvalue list option"

datatype AssertionHint =
    JSONSchemaHint (parent_workflow: "Workflow option") (json_schema: jdict)
  | RegoPolicyHint (parent_workflow: "Workflow option") (module: string) (rego_queries: "string list")
  | Cql2FilterHint (parent_workflow: "Workflow option") (cql2_queries: "Cql2Query list")

fun annotation :: "AssertionHint \<Rightarrow> string" where
  "annotation (JSONSchemaHint p s) = ''eoap.ogc.org/inputs-json-schema''"
| "annotation (RegoPolicyHint p m qs) = ''eoap.ogc.org/inputs-rego-policy''"
| "annotation (Cql2FilterHint p qs) = ''eoap.ogc.org/inputs-cql2-filter''"

text \<open>\<open>type(h).__name__\<close>\<close>

fun class_name :: "AssertionHint \<Rightarrow> string" where
  "class_name (JSONSchemaHint p s) = ''JSONSchemaHint''"
| "class_name (RegoPolicyHint p m qs) = ''RegoPolicyHint''"
| "class_name (Cql2FilterHint p qs) = ''Cql2FilterHint''"

subsection \<open>Construction from keyword arguments\<close>

text \<open>
  pydantic validates the keyword arguments against the declared field types and ignores
  the keywords that name no field. On the values above, \<open>str\<close> accepts a string only,
  \<open>List[T]\<close> a list whose elements are all accepted by \<open>T\<close>, \<open>Mapping[str, Any]\<close> a
  dictionary, and a model type a dictionary that validates as that model.
\<close>

fun validate_str :: "jvalue \<Rightarrow> string option" where
  "validate_str (JStr s) = Some s"
| "validate_str _ = None"

fun validate_cql2 :: "jvalue \<Rightarrow> jvalue option" where
  "validate_cql2 (JStr s) = Some (JStr s)"
| "validate_cql2 (JDict m) = Some (JDict m)"
| "validate_cql2 _ = None"

definition validate_Cql2Query :: "jdict \<Rightarrow> Cql2Query option" where
  "validate_Cql2Query kw =
     (case (map_of kw ''id'', map_of kw ''cql2'', map_of kw ''message'') of
        (Some i, Some c, Some m) \<Rightarrow>
          (case (validate_str i, validate_cql2 c, validate_str m) of
             (Some i', Some c', Some m') \<Rightarrow> Some \<lparr>cq_id = i', cq_cql2 = c', cq_message = m'\<rparr>
           | _ \<Rightarrow> None)
      | _ \<Rightarrow> None)"

fun validate_query_item :: "jvalue \<Rightarrow> Cql2Query option" where
  "validate_query_item (JDict m) = validate_Cql2Query m"
| "validate_query_item _ = None"

fun validate_list :: "(jvalue \<Rightarrow> 'a option) \<Rightarrow> jvalue \<Rightarrow> 'a list option" where
  "validate_list f (JList xs) = those (map f xs)"
| "validate_list f _ = None"

definition new_JSONSchemaHint :: "Workflow option \<Rightarrow> jdict \<Rightarrow> error + AssertionHint" where
  "new_JSONSchemaHint parent kw =
     (case map_of kw ''json_schema'' of
        None \<Rightarrow> Inr (JSONSchemaHint parent [])
      | Some (JDict m) \<Rightarrow> Inr (JSONSchemaHint parent m)
      | Some _ \<Rightarrow> Inl (ValidationError ''JSONSchemaHint''))"

definition new_RegoPolicyHint :: "Workflow option \<Rightarrow> jdict \<Rightarrow> error + AssertionHint" where
  "new_RegoPolicyHint parent kw =
     (case (map_of kw ''module'', map_of kw ''queries'') of
        (Some m, Some qs) \<Rightarrow>
          (case (validate_str m, validate_list validate_str qs) of
             (Some m', Some qs') \<Rightarrow> Inr (RegoPolicyHint parent m' qs')
           | _ \<Rightarrow> Inl (ValidationError ''RegoPolicyHint''))
      | _ \<Rightarrow> Inl (ValidationError ''RegoPolicyHint''))"

definition new_Cql2FilterHint :: "Workflow option \<Rightarrow> jdict \<Rightarrow> error + AssertionHint" where
  "new_Cql2FilterHint parent kw =
     (case map_of kw ''queries'' of
        Some qs \<Rightarrow>
          (case validate_list validate_query_item qs of
             Some qs' \<Rightarrow> Inr (Cql2FilterHint parent qs')
           | None \<Rightarrow> Inl (ValidationError ''Cql2FilterHint''))
      | None \<Rightarrow> Inl (ValidationError ''Cql2FilterHint''))"

definition new_Cql2Query :: "jdict \<Rightarrow> error + Cql2Query" where
  "new_Cql2Query kw =
     (case validate_Cql2Query kw of
        Some q \<Rightarrow> Inr q
      | None \<Rightarrow> Inl (ValidationError ''Cql2Query''))"

subsection \<open>Serialisation\<close>



subsection \<open>Logging\<close>

text \<open>
  The log is part of what the functions do, so it is returned with the result. A message
  is the sequence of the pieces of its f-string: the literal text, the values and the
  exceptions formatted into it.
\<close>

datatype piece = Lit string | Val jvalue | Exc error

datatype level = DEBUG | INFO | ERROR

type_synonym log_entry = "level \<times> piece list"

subsection \<open>Strings\<close>

text \<open>\<open>p in s\<close> on strings, and \<open>s.split(c)\<close> for a single character \<open>c\<close>.\<close>

fun starts_with :: "string \<Rightarrow> string \<Rightarrow> bool" where
  "starts_with [] s = True"
| "starts_with (a # p) [] = False"
| "starts_with (a # p) (b # s) = (a = b \<and> starts_with p s)"

fun py_contains :: "string \<Rightarrow> string \<Rightarrow> bool" where
  "py_contains p [] = starts_with p []"
| "py_contains p (b # s) = (starts_with p (b # s) \<or> py_contains p s)"

fun py_split :: "char \<Rightarrow> string \<Rightarrow> string list" where
  "py_split c [] = [[]]"
| "py_split c (x # xs) =
     (if x = c then [] # py_split c xs
      else (case py_split c xs of
              [] \<Rightarrow> [[x]]
            | w # ws \<Rightarrow> (x # w) # ws))"

subsection \<open>The resolver\<close>

text \<open>What the resolver can return: it calls whatever the module binds to the kind name.\<close>

datatype pyobj = HintObj AssertionHint | QueryObj Cql2Query | OtherObj string

text \<open>
  \<open>globals()[name](parent_workflow=parent, **hint)\<close>. The models of this module are
  built as above; the two abstract classes cannot be instantiated. For every other name
  \<open>ext name parent hint\<close> gives the outcome: the exception raised (a \<open>KeyError\<close> when the
  module binds no such name, a \<open>TypeError\<close> when what it binds cannot be called so), or
  the type name of the object returned, an object that Python counts as true as the
  models are. A hint that has a \<open>parent_workflow\<close> key of its own gives the call that
  keyword twice.
\<close>

definition call_global ::
  "(string \<Rightarrow> Workflow option \<Rightarrow> jdict \<Rightarrow> error + string) \<Rightarrow> string \<Rightarrow> Workflow option \<Rightarrow> jdict
     \<Rightarrow> error + pyobj" where
  "call_global ext name parent hint =
     (if name \<in> {''JSONSchemaHint'', ''RegoPolicyHint'', ''Cql2FilterHint'', ''Cql2Query'',
                  ''AssertionHint'', ''BaseValidator''} then
        if map_of hint ''parent_workflow'' \<noteq> None then Inl (TypeError ''parent_workflow'')
        else if name = ''JSONSchemaHint'' then map_sum id HintObj (new_JSONSchemaHint parent hint)
        else if name = ''RegoPolicyHint'' then map_sum id HintObj (new_RegoPolicyHint parent hint)
        else if name = ''Cql2FilterHint'' then map_sum id HintObj (new_Cql2FilterHint parent hint)
        else if name = ''Cql2Query'' then map_sum id QueryObj (new_Cql2Query hint)
        else Inl (TypeError name)
      else map_sum id OtherObj (ext name parent hint))"

text \<open>\<open>'eoap:' in v\<close>, by the type of \<open>v\<close>.\<close>

fun eoap_in :: "jvalue \<Rightarrow> error + bool" where
  "eoap_in (JStr s) = Inr (py_contains ''eoap:'' s)"
| "eoap_in (JList xs) = Inr (List.member xs (JStr ''eoap:''))"
| "eoap_in (JDict m) = Inr (List.member (map fst m) ''eoap:'')"
| "eoap_in v = Inl (TypeError (py_type_repr v))"

definition get_assertion_hint_by_name ::
  "(string \<Rightarrow> Workflow option \<Rightarrow> jdict \<Rightarrow> error + string) \<Rightarrow> Workflow option \<Rightarrow> jdict
     \<Rightarrow> (error + pyobj option) \<times> log_entry list" where
  "get_assertion_hint_by_name ext parent hint =
     (case map_of hint ''class'' of
        None \<Rightarrow> (Inl (KeyError ''class''), [])
      | Some fqn_hint_kind \<Rightarrow>
          (let log1 = [(DEBUG, [Lit ''Analysing hint: '', Val fqn_hint_kind])] in
           case eoap_in fqn_hint_kind of
             Inl e \<Rightarrow> (Inl e, log1)
           | Inr False \<Rightarrow> (Inr None, log1)
           | Inr True \<Rightarrow>
               (case fqn_hint_kind of
                  JStr s \<Rightarrow>
                    (let hint_kind_name = last (py_split CHR '':'' s);
                         log2 = log1 @ [(DEBUG, [Lit ''Mapping '', Val fqn_hint_kind,
                                                 Lit '' to AssertionHint:''])]
                     in case call_global ext hint_kind_name parent hint of
                          Inr obj \<Rightarrow> (Inr (Some obj), log2)
                        | Inl e \<Rightarrow>
                            (Inr None,
                             log2 @ [(ERROR, [Lit ''An error occurred while mapping '',
                                              Val fqn_hint_kind, Lit '' to AssertionHint: '',
                                              Exc e])]))
                | _ \<Rightarrow> (Inl (AttributeError ''split''), log1))))"

text \<open>The loop of \<open>extract_assertion_hints\<close>; an exception ends it.\<close>

fun extract_loop ::
  "(string \<Rightarrow> Workflow option \<Rightarrow> jdict \<Rightarrow> error + string) \<Rightarrow> Workflow \<Rightarrow> jvalue list \<Rightarrow> pyobj list
     \<Rightarrow> (error + pyobj list) \<times> log_entry list" where
  "extract_loop ext workflow [] assertion_hints = (Inr assertion_hints, [])"
| "extract_loop ext workflow (JDict hint # hints) assertion_hints =
     (case get_assertion_hint_by_name ext (Some workflow) hint of
        (Inl e, l) \<Rightarrow> (Inl e, l)
      | (Inr hint_instance, l) \<Rightarrow>
          (case extract_loop ext workflow hints
                  (case hint_instance of
                     Some obj \<Rightarrow> assertion_hints @ [obj]
                   | None \<Rightarrow> assertion_hints) of
             (r, l') \<Rightarrow> (r, l @ l')))"
| "extract_loop ext workflow (_ # hints) assertion_hints =
     extract_loop ext workflow hints assertion_hints"

definition extract_assertion_hints ::
  "(string \<Rightarrow> Workflow option \<Rightarrow> jdict \<Rightarrow> error + string) \<Rightarrow> Workflow
     \<Rightarrow> (error + pyobj list) \<times> log_entry list" where
  "extract_assertion_hints ext workflow =
     (case wf_hints workflow of
        Some (h # hs) \<Rightarrow> extract_loop ext workflow (h # hs) []
      | _ \<Rightarrow>
          (Inr [],
           [(DEBUG, [Lit ''No hints defined in current #'',
                     Lit (last (py_split CHR ''#'' (wf_id workflow))), Lit '' '',
                     Lit (wf_class workflow), Lit '' ('', Lit (wf_cwlVersion workflow),
                     Lit '')''])]))"

section \<open>cli.py: the orchestrator\<close>

text \<open>
  Everything external, in one record: the two engines above, the other names of the
  hint module (\<open>ext_of\<close>), the type converter of cwl2ogc, and the schema validator,
  whose module is not among the sources (\<open>jsonschema_init schema\<close> is the exception its
  constructor raises, if any, and \<open>jsonschema_validate schema data\<close> its
  \<open>validate_inputs\<close>).
\<close>

record 'ast env =
  cql2_of :: "'ast cql2_engine"
  rego_of :: rego_engine
  ext_of :: "string \<Rightarrow> Workflow option \<Rightarrow> jdict \<Rightarrow> error + string"
  cwl2ogc :: "Workflow \<Rightarrow> error + jdict"
  jsonschema_init :: "jdict \<Rightarrow> error option"
  jsonschema_validate :: "jdict \<Rightarrow> jvalue \<Rightarrow> error + ProblemDetails option"

datatype validator =
    JSONSchemaValidator jdict
  | RegoValidatorObj RegoValidator
  | Cql2ValidatorObj Cql2Validator

fun validator_type_name :: "validator \<Rightarrow> string" where
  "validator_type_name (JSONSchemaValidator s) = ''JSONSchemaValidator''"
| "validator_type_name (RegoValidatorObj v) = ''RegoValidator''"
| "validator_type_name (Cql2ValidatorObj v) = ''Cql2Validator''"

fun obj_type_name :: "pyobj \<Rightarrow> string" where
  "obj_type_name (HintObj h) = class_name h"
| "obj_type_name (QueryObj q) = ''Cql2Query''"
| "obj_type_name (OtherObj n) = n"

text \<open>\<open>hint.validator()\<close> of the three hint classes.\<close>

fun hint_validator :: "'ast env \<Rightarrow> AssertionHint \<Rightarrow> error + validator" where
  "hint_validator V (JSONSchemaHint p s) =
     (case (case p of Some w \<Rightarrow> cwl2ogc V w | None \<Rightarrow> Inr s) of
        Inl e \<Rightarrow> Inl e
      | Inr schema \<Rightarrow>
          (case jsonschema_init V schema of
             Some e \<Rightarrow> Inl e
           | None \<Rightarrow> Inr (JSONSchemaValidator schema)))"
| "hint_validator V (RegoPolicyHint p m qs) =
     map_sum id RegoValidatorObj (RegoValidator_init (rego_of V) m qs)"
| "hint_validator V (Cql2FilterHint p qs) = Inr (Cql2ValidatorObj \<lparr>cv_queries = qs\<rparr>)"

text \<open>An object that is no hint has no \<open>validator\<close> attribute.\<close>

fun obj_validator :: "'ast env \<Rightarrow> pyobj \<Rightarrow> error + validator" where
  "obj_validator V (HintObj h) = hint_validator V h"
| "obj_validator V _ = Inl (AttributeError ''validator'')"

text \<open>
  \<open>validator.validate_inputs(inputs)\<close>, dispatched on the class; the validator after the
  call is returned too.
\<close>

fun validate_inputs ::
  "'ast env \<Rightarrow> validator \<Rightarrow> jvalue \<Rightarrow> (error + ProblemDetails option) \<times> validator" where
  "validate_inputs V (JSONSchemaValidator s) data =
     (jsonschema_validate V s data, JSONSchemaValidator s)"
| "validate_inputs V (RegoValidatorObj v) data =
     (case RegoValidator_validate_inputs (rego_of V) v data of (r, v') \<Rightarrow> (r, RegoValidatorObj v'))"
| "validate_inputs V (Cql2ValidatorObj v) data =
     (Cql2Validator_validate_inputs (cql2_of V) v data, Cql2ValidatorObj v)"

text \<open>The first loop of \<open>_scan_workflow\<close>: every hint builds its validator inside a \<open>try\<close>.\<close>

fun prepare :: "'ast env \<Rightarrow> pyobj list \<Rightarrow> validator list \<Rightarrow> validator list \<times> log_entry list" where
  "prepare V [] validators = (validators, [])"
| "prepare V (hint_instance # rest) validators =
     (let l = [(INFO, [Lit ''Setting up validator for '', Lit (obj_type_name hint_instance),
                       Lit ''...''])]
      in case obj_validator V hint_instance of
           Inr v \<Rightarrow>
             (case prepare V rest (validators @ [v]) of (vs, l') \<Rightarrow> (vs, l @ l'))
         | Inl e \<Rightarrow>
             (case prepare V rest validators of
                (vs, l') \<Rightarrow>
                  (vs, l @ [(ERROR, [Lit ''An error occurred when setting up '',
                                     Lit (obj_type_name hint_instance), Lit '': '', Exc e])] @ l')))"

text \<open>
  The lines logged for a report: one per entry of \<open>errors\<close>; iterating over an absent
  list raises.
\<close>

definition log_report :: "validator \<Rightarrow> ProblemDetails \<Rightarrow> (error + unit) \<times> log_entry list" where
  "log_report v problem_details =
     (let l = [(ERROR, [Lit ''    '', Lit (validator_type_name v), Lit '' detected violations below:''])]
      in case pd_errors problem_details of
           None \<Rightarrow> (Inl (TypeError ''NoneType''), l)
         | Some es \<Rightarrow>
             (Inr (),
              l @ map (\<lambda>error_detail.
                         (ERROR, [Lit ''    ['',
                                  Val (case ed_pointer error_detail of None \<Rightarrow> JNull | Some p \<Rightarrow> JStr p),
                                  Lit ''] '', Lit (ed_detail error_detail)])) es))"

text \<open>The second loop: the call of \<open>validate_inputs\<close> is inside no \<open>try\<close>.\<close>

fun run_validators :: "'ast env \<Rightarrow> validator list \<Rightarrow> jvalue \<Rightarrow> (error + unit) \<times> log_entry list" where
  "run_validators V [] inputs = (Inr (), [])"
| "run_validators V (v # vs) inputs =
     (let l = [(INFO, [Lit ''  - Executing '', Lit (validator_type_name v), Lit ''...''])]
      in case fst (validate_inputs V v inputs) of
           Inl e \<Rightarrow> (Inl e, l)
         | Inr None \<Rightarrow>
             (case run_validators V vs inputs of
                (r, l') \<Rightarrow>
                  (r, l @ [(INFO, [Lit ''    '', Lit (validator_type_name v),
                                   Lit '' execution terminated with no violations''])] @ l'))
         | Inr (Some problem_details) \<Rightarrow>
             (case log_report v problem_details of
                (Inl e, l') \<Rightarrow> (Inl e, l @ l')
              | (Inr _, l') \<Rightarrow>
                  (case run_validators V vs inputs of (r, l'') \<Rightarrow> (r, l @ l' @ l''))))"

definition scan_workflow :: "'ast env \<Rightarrow> Workflow \<Rightarrow> jvalue \<Rightarrow> (error + unit) \<times> log_entry list" where
  "scan_workflow V workflow inputs =
     (let workflow_id = last (py_split CHR ''#'' (wf_id workflow));
          l0 = [(INFO, [Lit ''------------------------------------------------------------------------'']),
                (INFO, [Lit ''Validating #'', Lit workflow_id, Lit '' '', Lit (wf_class workflow),
                        Lit '' ('', Lit (wf_cwlVersion workflow), Lit ''):''])]
      in case extract_assertion_hints (ext_of V) workflow of
           (Inl e, l1) \<Rightarrow> (Inl e, l0 @ l1)
         | (Inr hints, l1) \<Rightarrow>
             (case prepare V hints [] of
                (validators, l2) \<Rightarrow>
                  if validators \<noteq> [] then
                    (case run_validators V validators inputs of
                       (r, l3) \<Rightarrow>
                         (r, l0 @ l1 @ l2 @ [(INFO, [Lit ''Setup is over, validating...''])] @ l3))
                  else
                    (Inr (),
                     l0 @ l1 @ l2 @ [(INFO, [Lit ''No Validators configured in '#'', Lit workflow_id,
                                             Lit (''.hints'' @ [CHR 0x27])])])))"

section \<open>Notions of the specification\<close>

text \<open>
  The syntax tree a query parses to, if its expression has a recognised shape and the
  parser accepts it.
\<close>

definition cql2_ast :: "'ast cql2_engine \<Rightarrow> Cql2Query \<Rightarrow> 'ast option" where
  "cql2_ast E f =
     (case cq_cql2 f of
        JStr s \<Rightarrow> (case parse_cql2_text E s of Inr a \<Rightarrow> Some a | Inl e \<Rightarrow> None)
      | JDict m \<Rightarrow> (case parse_cql2_json E m of Inr a \<Rightarrow> Some a | Inl e \<Rightarrow> None)
      | _ \<Rightarrow> None)"

text \<open>
  A query is violated on an input when it does not parse, or parses to a tree whose
  predicate is false on the input.
\<close>

definition violated :: "'ast cql2_engine \<Rightarrow> jvalue \<Rightarrow> Cql2Query \<Rightarrow> bool" where
  "violated E data f =
     (case cql2_ast E f of
        None \<Rightarrow> True
      | Some a \<Rightarrow> ast_truthy E a \<and> evaluate E a data = Inr False)"

text \<open>An entry of a report, with the pointer and the text a validator gives it.\<close>

definition error_detail :: "string \<Rightarrow> string \<Rightarrow> ErrorDetail" where
  "error_detail p d =
     \<lparr>ed_detail = d, ed_pointer = Some p, ed_parameter = None, ed_header = None, ed_code = None\<rparr>"

text \<open>The limits the error model puts on an entry.\<close>

definition within_limits :: "ErrorDetail \<Rightarrow> bool" where
  "within_limits d =
     (length (ed_detail d) \<le> 4096 \<and>
      (case ed_pointer d of None \<Rightarrow> True | Some p \<Rightarrow> length p \<le> 1024))"

text \<open>The report of the business-rule-violation kind with the given entries.\<close>

definition violation_report :: "ErrorDetail list \<Rightarrow> ProblemDetails" where
  "violation_report es =
     \<lparr>pd_type = Some ''https://problems-registry.smartbear.com/business-rule-violation'',
      pd_status = Some 422,
      pd_title = Some ''Business Rule Violation'',
      pd_detail = ''The request body is invalid and not meeting business rules.'',
      pd_instance = None,
      pd_code = None,
      pd_errors = Some es\<rparr>"

text \<open>
  The text reported for a query that does not parse: the parser's error, or the
  unrecognised format.
\<close>

definition parse_failure :: "'ast cql2_engine \<Rightarrow> Cql2Query \<Rightarrow> string option" where
  "parse_failure E f =
     (case cq_cql2 f of
        JStr s \<Rightarrow>
          (case parse_cql2_text E s of
             Inl e \<Rightarrow> Some (''Filter does not look like a valid CQL2 Text encoded sentece: '' @ e)
           | Inr a \<Rightarrow> None)
      | JDict m \<Rightarrow>
          (case parse_cql2_json E m of
             Inl e \<Rightarrow> Some (''Filter does not look like a valid CQL2 JSON encoded structure: '' @ e)
           | Inr a \<Rightarrow> None)
      | other \<Rightarrow> Some (''Filter is expressed in an unrecognizible format: '' @ py_type_repr other))"

text \<open>
  What one query contributes on an input, by itself: the parse failure, or the declared
  message when the predicate of its tree is false, or nothing.
\<close>

definition cql2_outcome :: "'ast cql2_engine \<Rightarrow> jvalue \<Rightarrow> Cql2Query \<Rightarrow> ErrorDetail option" where
  "cql2_outcome E data f =
     (case parse_failure E f of
        Some t \<Rightarrow> Some (error_detail (cq_id f) t)
      | None \<Rightarrow>
          (case cql2_ast E f of
             Some a \<Rightarrow>
               if evaluate E a data = Inr False
               then Some (error_detail (cq_id f) (cq_message f))
               else None
           | None \<Rightarrow> None))"

text \<open>
  A query that parses is evaluated: its tree is one that Python counts as true, and its
  predicate gives true or false on the input (the evaluator does not raise).
\<close>

definition evaluates :: "'ast cql2_engine \<Rightarrow> jvalue \<Rightarrow> Cql2Query \<Rightarrow> bool" where
  "evaluates E data f =
     (case cql2_ast E f of
        Some a \<Rightarrow> ast_truthy E a \<and> (case evaluate E a data of Inr b \<Rightarrow> True | Inl e \<Rightarrow> False)
      | None \<Rightarrow> True)"

text \<open>
  What one result row of a policy query contributes: an entry with the query as pointer
  and the first expression as text, when the row has an expression and the first one is
  a string.
\<close>

definition row_detail :: "string \<Rightarrow> rego_result \<Rightarrow> ErrorDetail option" where
  "row_detail query r =
     (case expressions r of
        JStr s # _ \<Rightarrow> Some (error_detail query s)
      | _ \<Rightarrow> None)"

definition string_row :: "rego_result \<Rightarrow> bool" where
  "string_row r = (case expressions r of [] \<Rightarrow> True | JStr s # _ \<Rightarrow> True | _ \<Rightarrow> False)"

text \<open>The validators of the filter and the policy kind.\<close>

fun filter_or_policy :: "validator \<Rightarrow> bool" where
  "filter_or_policy (JSONSchemaValidator s) = False"
| "filter_or_policy (RegoValidatorObj v) = True"
| "filter_or_policy (Cql2ValidatorObj v) = True"




section \<open>Concrete inputs\<close>

text \<open>
  A small filter engine to run the validators on: an expression is the name of a boolean
  input, given as text or as \<open>{"property": name}\<close>. The empty text does not parse, and
  an input that is missing or not boolean makes the evaluation raise.
\<close>

definition ex_cql2 :: "string cql2_engine" where
  "ex_cql2 =
     \<lparr>parse_cql2_text = (\<lambda>s. if s = [] then Inl ''Unexpected end of input'' else Inr s),
      parse_cql2_json = (\<lambda>m. case map_of m ''property'' of
                                 Some (JStr k) \<Rightarrow> Inr k
                               | _ \<Rightarrow> Inl ''Unable to parse expression node''),
      ast_truthy = (\<lambda>a. True),
      evaluate = (\<lambda>a data. case data of
                              JDict m \<Rightarrow> (case map_of m a of
                                            Some (JBool b) \<Rightarrow> Inr b
                                          | _ \<Rightarrow> Inl (KeyError a))
                            | _ \<Rightarrow> Inl (TypeError ''data''))\<rparr>"

definition ex_inputs :: jvalue where
  "ex_inputs = JDict [(''inside'', JBool False), (''small'', JBool True)]"

definition q_area :: Cql2Query where
  "q_area = \<lparr>cq_id = ''q1'', cq_cql2 = JStr ''inside'', cq_message = ''out of area''\<rparr>"

definition q_small :: Cql2Query where
  "q_small = \<lparr>cq_id = ''q2'', cq_cql2 = JDict [(''property'', JStr ''small'')], cq_message = ''too large''\<rparr>"

definition q_empty :: Cql2Query where
  "q_empty = \<lparr>cq_id = ''q3'', cq_cql2 = JStr [], cq_message = ''never shown''\<rparr>"

definition q_number :: Cql2Query where
  "q_number = \<lparr>cq_id = ''q4'', cq_cql2 = JNum 5, cq_message = ''never shown''\<rparr>"

definition ex_filter :: Cql2Validator where
  "ex_filter = \<lparr>cv_queries = [q_empty, q_small, q_area, q_number]\<rparr>"

text \<open>
  A small policy engine: a query names an input. An absent input gives one row with a
  message, a boolean input one row with that boolean, a list input one row for each
  element (the element's own list of expressions), a null input makes the query raise,
  any other input gives no row.
\<close>

definition ex_rego :: rego_engine where
  "ex_rego =
     \<lparr>rego_compile = (\<lambda>name source. if source = [] then Some (EngineError ''empty module'') else None),
      rego_query = (\<lambda>i q. case it_input i of
                             Some (JDict m) \<Rightarrow>
                               (case map_of m q of
                                  None \<Rightarrow> Inr [\<lparr>expressions = [JStr (''missing input '' @ q)]\<rparr>]
                                | Some (JBool b) \<Rightarrow> Inr [\<lparr>expressions = [JBool b]\<rparr>]
                                | Some (JList xs) \<Rightarrow>
                                    Inr (map (\<lambda>x. \<lparr>expressions = (case x of JList es \<Rightarrow> es | _ \<Rightarrow> [x])\<rparr>) xs)
                                | Some JNull \<Rightarrow> Inl (EngineError (''undefined input '' @ q))
                                | Some _ \<Rightarrow> Inr [])
                           | _ \<Rightarrow> Inl (EngineError ''no input object''))\<rparr>"

definition ex_policy :: RegoValidator where
  "ex_policy =
     \<lparr>rv_rego = \<lparr>it_modules = [(''workflow'', ''package workflow'')], it_input = None\<rparr>,
      rv_queries = [''small'', ''area'', ''denied'']\<rparr>"

definition ex_policy_inputs :: jvalue where
  "ex_policy_inputs =
     JDict [(''small'', JNum 1),
            (''denied'', JList [JList [JStr ''too large'', JStr ''ignored''], JList [],
                                JList [JStr ''too far'']])]"

definition ex_env :: "string env" where
  "ex_env =
     \<lparr>cql2_of = ex_cql2,
      rego_of = ex_rego,
      ext_of = (\<lambda>name parent kw. if name = ''BaseModel'' then Inr ''BaseModel'' else Inl (KeyError name)),
      cwl2ogc = (\<lambda>w. Inr [(''type'', JStr ''object'')]),
      jsonschema_init = (\<lambda>schema. None),
      jsonschema_validate = (\<lambda>schema data. Inr None)\<rparr>"

text \<open>A query that is violated on \<open>ex_inputs\<close> and whose message has 4097 characters.\<close>

definition q_long :: Cql2Query where
  "q_long = \<lparr>cq_id = ''q5'', cq_cql2 = JStr ''inside'', cq_message = replicate 4097 CHR ''x''\<rparr>"

text \<open>An input on which the query \<open>small\<close> has one result row, whose expression is a boolean.\<close>

definition ex_bool_inputs :: jvalue where
  "ex_bool_inputs = JDict [(''small'', JBool False)]"

text \<open>Hint records, the other names of the hint module, and a workflow.\<close>

definition ex_ext :: "string \<Rightarrow> Workflow option \<Rightarrow> jdict \<Rightarrow> error + string" where
  "ex_ext = (\<lambda>name parent kw. if name = ''BaseModel'' then Inr ''BaseModel'' else Inl (KeyError name))"

definition r_schema :: jdict where
  "r_schema = [(''class'', JStr ''eoap:JSONSchemaHint''),
               (''json_schema'', JDict [(''type'', JStr ''object'')])]"

definition r_policy :: jdict where
  "r_policy = [(''class'', JStr ''eoap:RegoPolicyHint''),
               (''module'', JStr ''package workflow''),
               (''queries'', JList [JStr ''area'', JStr ''denied''])]"

definition r_filter :: jdict where
  "r_filter = [(''class'', JStr ''eoap:Cql2FilterHint''),
               (''queries'', JList [JDict [(''id'', JStr ''q1''), (''cql2'', JStr ''inside''),
                                           (''message'', JStr ''out of area'')]])]"


text \<open>A record of another consumer, one of an unknown kind, and two with unusual discriminators.\<close>

definition r_other :: jdict where
  "r_other = [(''class'', JStr ''cwltool:Secrets''), (''secrets'', JList [])]"

definition r_unknown :: jdict where
  "r_unknown = [(''class'', JStr ''eoap:schema'')]"

definition r_foreign :: jdict where
  "r_foreign = [(''class'', JStr ''x-eoap:JSONSchemaHint'')]"

definition r_nested :: jdict where
  "r_nested = [(''class'', JStr ''eoap:v1:RegoPolicyHint''),
               (''module'', JStr ''package workflow''),
               (''queries'', JList [])]"

definition ex_policy_hint :: AssertionHint where
  "ex_policy_hint = RegoPolicyHint None ''package workflow'' [''area'', ''denied'']"

definition ex_workflow :: Workflow where
  "ex_workflow =
     \<lparr>wf_id = ''file:///app.cwl#main'', wf_class = ''Workflow'', wf_cwlVersion = ''v1.2'',
      wf_inputs = JDict [], wf_hints = Some [JDict r_filter, JDict r_policy]\<rparr>"

text \<open>
  The same filter engine with trees that Python counts as false, and a query on an input
  that \<open>ex_inputs\<close> does not have.
\<close>

definition ex_cql2_falsy :: "string cql2_engine" where
  "ex_cql2_falsy = ex_cql2\<lparr>ast_truthy := (\<lambda>a. False)\<rparr>"

definition q_crash :: Cql2Query where
  "q_crash = \<lparr>cq_id = ''q6'', cq_cql2 = JStr ''absent'', cq_message = ''never shown''\<rparr>"

text \<open>An input on which the query \<open>small\<close> has a row and the query \<open>area\<close> raises.\<close>

definition ex_raise_inputs :: jvalue where
  "ex_raise_inputs = JDict [(''area'', JNull)]"




section \<open>Properties of the filter validator\<close>

lemma append_error_Inr:
  "append_error es p d = Inr es' \<Longrightarrow>
     \<exists>x. es' = es @ [x] \<and> ed_pointer x = Some p \<and> d = JStr (ed_detail x)"
  by (auto simp: append_error_def new_ErrorDetail_def split: sum.splits jvalue.splits if_splits)

lemma cql2_parse_Inr:
  "cql2_parse E f es = Inr (ast, es') \<Longrightarrow>
     ast = cql2_ast E f \<and>
     ((ast \<noteq> None \<and> es' = es) \<or>
      (ast = None \<and> (\<exists>x. es' = es @ [x] \<and> ed_pointer x = Some (cq_id f))))"
  by (auto simp: cql2_parse_def cql2_ast_def split: sum.splits jvalue.splits dest!: append_error_Inr)

lemma cql2_check_Inr:
  "cql2_check E data f ast es = Inr es' \<Longrightarrow>
     es' = es \<or>
     (\<exists>a x. ast = Some a \<and> ast_truthy E a \<and> evaluate E a data = Inr False \<and>
            es' = es @ [x] \<and> ed_pointer x = Some (cq_id f))"
  by (auto simp: cql2_check_def split: option.splits sum.splits bool.splits if_splits
           dest!: append_error_Inr)

text \<open>One turn of the loop adds nothing, or one entry for a violated query.\<close>

lemma cql2_step_Inr:
  assumes p: "cql2_parse E f es = Inr (ast, es1)"
    and c: "cql2_check E data f ast es1 = Inr es2"
  shows "es2 = es \<or> (\<exists>x. es2 = es @ [x] \<and> ed_pointer x = Some (cq_id f) \<and> violated E data f)"
  using cql2_parse_Inr[OF p] cql2_check_Inr[OF c]
  by (auto simp: violated_def)

lemma cql2_loop_subseq:
  "cql2_loop E data fs es = Inr es' \<Longrightarrow>
     \<exists>qs ds. es' = es @ ds \<and> subseq qs fs \<and>
             map ed_pointer ds = map (\<lambda>q. Some (cq_id q)) qs \<and>
             (\<forall>q\<in>set qs. violated E data q)"
proof (induction fs arbitrary: es)
  case Nil
  then show ?case by auto
next
  case (Cons f fs)
  from Cons.prems obtain ast es1 es2 where
    p: "cql2_parse E f es = Inr (ast, es1)" and
    c: "cql2_check E data f ast es1 = Inr es2" and
    l: "cql2_loop E data fs es2 = Inr es'"
    by (auto split: sum.splits prod.splits)
  from Cons.IH[OF l] obtain qs ds where
    r: "es' = es2 @ ds" "subseq qs fs" "map ed_pointer ds = map (\<lambda>q. Some (cq_id q)) qs"
       "\<forall>q\<in>set qs. violated E data q"
    by blast
  from cql2_step_Inr[OF p c] show ?case
  proof
    assume "es2 = es"
    with r show ?thesis by (intro exI[of _ qs] exI[of _ ds]) auto
  next
    assume "\<exists>x. es2 = es @ [x] \<and> ed_pointer x = Some (cq_id f) \<and> violated E data f"
    then obtain x where "es2 = es @ [x]" "ed_pointer x = Some (cq_id f)" "violated E data f"
      by blast
    with r show ?thesis by (intro exI[of _ "f # qs"] exI[of _ "x # ds"]) auto
  qed
qed

text \<open>The evaluator is consulted only on the trees of the queries that parsed.\<close>

lemma cql2_parse_evaluate:
  "cql2_parse (E\<lparr>evaluate := ev\<rparr>) f es = cql2_parse E f es"
  by (simp add: cql2_parse_def split: jvalue.splits)

lemma cql2_loop_evaluate:
  "(\<forall>f\<in>set fs. \<forall>a. cql2_ast E f = Some a \<and> ast_truthy E a \<longrightarrow> ev a data = evaluate E a data) \<Longrightarrow>
   cql2_loop (E\<lparr>evaluate := ev\<rparr>) data fs es = cql2_loop E data fs es"
proof (induction fs arbitrary: es)
  case Nil
  show ?case by simp
next
  case (Cons f fs)
  have chk: "cql2_check (E\<lparr>evaluate := ev\<rparr>) data f ast es1 = cql2_check E data f ast es1"
    if "cql2_parse E f es = Inr (ast, es1)" for ast es1
    using cql2_parse_Inr[OF that] Cons.prems
    by (auto simp: cql2_check_def split: option.splits)
  from Cons.prems
  have "cql2_loop (E\<lparr>evaluate := ev\<rparr>) data fs es' = cql2_loop E data fs es'" for es'
    by (intro Cons.IH) simp
  with chk show ?case
    by (auto simp: cql2_parse_evaluate split: sum.splits prod.splits)
qed

lemma report_Some:
  "report es = Inr (Some p) \<Longrightarrow>
     es \<noteq> [] \<and> pd_errors p = Some es \<and>
     pd_type p = Some ''https://problems-registry.smartbear.com/business-rule-violation'' \<and>
     pd_status p = Some 422 \<and> pd_title p = Some ''Business Rule Violation''"
  by (auto simp: report_def BusinessRuleViolation_def split: if_splits)

lemma ex_filter_run:
  "Cql2Validator_validate_inputs ex_cql2 ex_filter ex_inputs =
     Inr (Some \<lparr>pd_type = Some ''https://problems-registry.smartbear.com/business-rule-violation'',
                pd_status = Some 422,
                pd_title = Some ''Business Rule Violation'',
                pd_detail = ''The request body is invalid and not meeting business rules.'',
                pd_instance = None,
                pd_code = None,
                pd_errors = Some
                  [\<lparr>ed_detail = ''Filter does not look like a valid CQL2 Text encoded sentece: Unexpected end of input'',
                    ed_pointer = Some ''q3'', ed_parameter = None, ed_header = None, ed_code = None\<rparr>,
                   \<lparr>ed_detail = ''out of area'',
                    ed_pointer = Some ''q1'', ed_parameter = None, ed_header = None, ed_code = None\<rparr>,
                   \<lparr>ed_detail = ''Filter is expressed in an unrecognizible format: <class 'int'>'',
                    ed_pointer = Some ''q4'', ed_parameter = None, ed_header = None, ed_code = None\<rparr>]\<rparr>)"
  by (simp add: Cql2Validator_validate_inputs_def ex_filter_def q_empty_def q_small_def
        q_area_def q_number_def ex_cql2_def ex_inputs_def cql2_parse_def cql2_check_def
        append_error_def new_ErrorDetail_def report_def BusinessRuleViolation_def)

text \<open>
  C10. Each declared query contributes at most one entry to a returned report: the
  entries are, in order, those of a subsequence of the declared queries, each with the
  query's id as pointer and each for a query that did not parse or whose predicate was
  false; so there are at most as many entries as queries. A query that did not parse is
  not evaluated: the result is the same with any evaluator that agrees with the given
  one on the trees of the queries that parsed.
\<close>

theorem cql2_at_most_one_error_per_query:
  assumes "Cql2Validator_validate_inputs E self data = Inr (Some p)"
  shows "(\<exists>es qs. pd_errors p = Some es \<and> subseq qs (cv_queries self) \<and>
                  map ed_pointer es = map (\<lambda>q. Some (cq_id q)) qs \<and>
                  (\<forall>q\<in>set qs. violated E data q) \<and>
                  length es \<le> length (cv_queries self)) \<and>
         (\<forall>ev. (\<forall>f\<in>set (cv_queries self). \<forall>a.
                   cql2_ast E f = Some a \<and> ast_truthy E a \<longrightarrow> ev a data = evaluate E a data) \<longrightarrow>
               Cql2Validator_validate_inputs (E\<lparr>evaluate := ev\<rparr>) self data =
               Cql2Validator_validate_inputs E self data)"
proof
  from assms obtain es where l: "cql2_loop E data (cv_queries self) [] = Inr es"
    and r: "report es = Inr (Some p)"
    by (auto simp: Cql2Validator_validate_inputs_def split: sum.splits)
  from cql2_loop_subseq[OF l] obtain qs where
    qs: "subseq qs (cv_queries self)" "map ed_pointer es = map (\<lambda>q. Some (cq_id q)) qs"
        "\<forall>q\<in>set qs. violated E data q"
    by auto
  from qs(2) have "length es = length qs"
    by (metis length_map)
  with qs(1) have "length es \<le> length (cv_queries self)"
    by (simp add: list_emb_length)
  with qs report_Some[OF r]
  show "\<exists>es qs. pd_errors p = Some es \<and> subseq qs (cv_queries self) \<and>
                map ed_pointer es = map (\<lambda>q. Some (cq_id q)) qs \<and>
                (\<forall>q\<in>set qs. violated E data q) \<and>
                length es \<le> length (cv_queries self)"
    by blast
next
  show "\<forall>ev. (\<forall>f\<in>set (cv_queries self). \<forall>a.
                 cql2_ast E f = Some a \<and> ast_truthy E a \<longrightarrow> ev a data = evaluate E a data) \<longrightarrow>
             Cql2Validator_validate_inputs (E\<lparr>evaluate := ev\<rparr>) self data =
             Cql2Validator_validate_inputs E self data"
    by (simp add: Cql2Validator_validate_inputs_def cql2_loop_evaluate)
qed

theorem cql2_at_most_one_error_per_query_witness:
  "\<exists>p es. Cql2Validator_validate_inputs ex_cql2 ex_filter ex_inputs = Inr (Some p) \<and>
          pd_errors p = Some es \<and> length es = 3 \<and> length (cv_queries ex_filter) = 4 \<and>
          (\<exists>qs. subseq qs (cv_queries ex_filter) \<and>
                map ed_pointer es = map (\<lambda>q. Some (cq_id q)) qs \<and>
                (\<forall>q\<in>set qs. violated ex_cql2 ex_inputs q)) \<and>
          Cql2Validator_validate_inputs (ex_cql2\<lparr>evaluate := (\<lambda>a d. Inr (a \<noteq> ''inside''))\<rparr>)
            ex_filter ex_inputs = Inr (Some p)"
proof -
  let ?ev = "\<lambda>(a::string) (d::jvalue). (Inr (a \<noteq> ''inside'') :: error + bool)"
  obtain p where run: "Cql2Validator_validate_inputs ex_cql2 ex_filter ex_inputs = Inr (Some p)"
    and es: "pd_errors p \<noteq> None" "length (the (pd_errors p)) = 3"
    using ex_filter_run by simp
  have agree: "\<forall>f\<in>set (cv_queries ex_filter). \<forall>a.
      cql2_ast ex_cql2 f = Some a \<and> ast_truthy ex_cql2 a \<longrightarrow> ?ev a ex_inputs = evaluate ex_cql2 a ex_inputs"
    by (simp add: ex_filter_def q_empty_def q_small_def q_area_def q_number_def ex_cql2_def
          ex_inputs_def cql2_ast_def)
  note T = cql2_at_most_one_error_per_query[OF run]
  from conjunct1[OF T]
  have A: "\<exists>es qs. pd_errors p = Some es \<and> subseq qs (cv_queries ex_filter) \<and>
                  map ed_pointer es = map (\<lambda>q. Some (cq_id q)) qs \<and>
                  (\<forall>q\<in>set qs. violated ex_cql2 ex_inputs q)"
    by blast
  from conjunct2[OF T]
  have "(\<forall>f\<in>set (cv_queries ex_filter). \<forall>a.
           cql2_ast ex_cql2 f = Some a \<and> ast_truthy ex_cql2 a \<longrightarrow>
           ?ev a ex_inputs = evaluate ex_cql2 a ex_inputs) \<longrightarrow>
        Cql2Validator_validate_inputs (ex_cql2\<lparr>evaluate := ?ev\<rparr>) ex_filter ex_inputs =
        Cql2Validator_validate_inputs ex_cql2 ex_filter ex_inputs"
    by (rule spec)
  with agree
  have B: "Cql2Validator_validate_inputs (ex_cql2\<lparr>evaluate := ?ev\<rparr>) ex_filter ex_inputs =
           Cql2Validator_validate_inputs ex_cql2 ex_filter ex_inputs"
    by (rule rev_mp)
  from A B run es show ?thesis
    by (auto simp: ex_filter_def)
qed

lemma append_error_str:
  "append_error es p (JStr s) =
     (if within_limits (error_detail p s) then Inr (es @ [error_detail p s])
      else Inl (ValidationError ''ErrorDetail''))"
  by (auto simp: append_error_def new_ErrorDetail_def within_limits_def error_detail_def)

lemma parse_failure_no_ast:
  "parse_failure E f = Some t \<Longrightarrow> cql2_ast E f = None"
  by (auto simp: parse_failure_def cql2_ast_def split: jvalue.splits sum.splits)

lemma parse_failure_ast:
  "parse_failure E f = None \<Longrightarrow> \<exists>a. cql2_ast E f = Some a"
  by (auto simp: parse_failure_def cql2_ast_def split: jvalue.splits sum.splits)

text \<open>The parse of a query: its tree, and its entry when it does not parse.\<close>

lemma cql2_parse_eq:
  "cql2_parse E f es =
     (case parse_failure E f of
        None \<Rightarrow> Inr (cql2_ast E f, es)
      | Some t \<Rightarrow>
          if within_limits (error_detail (cq_id f) t)
          then Inr (None, es @ [error_detail (cq_id f) t])
          else Inl (ValidationError ''ErrorDetail''))"
  by (auto simp: cql2_parse_def parse_failure_def cql2_ast_def append_error_str
           split: jvalue.splits sum.splits)

text \<open>One turn of the loop on a query that is evaluated.\<close>

lemma cql2_turn_eq:
  assumes "evaluates E data f"
  shows "(case cql2_parse E f es of
            Inl x \<Rightarrow> Inl x
          | Inr (ast, es1) \<Rightarrow> cql2_check E data f ast es1) =
         (case cql2_outcome E data f of
            None \<Rightarrow> Inr es
          | Some d \<Rightarrow> if within_limits d then Inr (es @ [d]) else Inl (ValidationError ''ErrorDetail''))"
proof (cases "parse_failure E f")
  case (Some t)
  with parse_failure_no_ast[OF Some] show ?thesis
    by (simp add: cql2_parse_eq cql2_outcome_def cql2_check_def)
next
  case None
  from parse_failure_ast[OF None] obtain a where a: "cql2_ast E f = Some a" ..
  with assms obtain b where b: "ast_truthy E a" "evaluate E a data = Inr b"
    by (auto simp: evaluates_def split: sum.splits)
  with None a show ?thesis
    by (cases b) (simp_all add: cql2_parse_eq cql2_outcome_def cql2_check_def append_error_str)
qed

lemma cql2_loop_eq:
  assumes "\<forall>f\<in>set fs. evaluates E data f"
  shows "cql2_loop E data fs es =
           (if list_all within_limits (List.map_filter (cql2_outcome E data) fs)
            then Inr (es @ List.map_filter (cql2_outcome E data) fs)
            else Inl (ValidationError ''ErrorDetail''))"
  using assms
proof (induction fs arbitrary: es)
  case Nil
  show ?case by (simp add: List.map_filter_simps)
next
  case (Cons f fs)
  have ev: "evaluates E data f"
    using Cons.prems by simp
  have rest: "cql2_loop E data fs es' =
           (if list_all within_limits (List.map_filter (cql2_outcome E data) fs)
            then Inr (es' @ List.map_filter (cql2_outcome E data) fs)
            else Inl (ValidationError ''ErrorDetail''))" for es'
    using Cons.prems by (intro Cons.IH) simp
  have step: "cql2_loop E data (f # fs) es =
      (case (case cql2_parse E f es of
               Inl x \<Rightarrow> Inl x
             | Inr (ast, es1) \<Rightarrow> cql2_check E data f ast es1) of
         Inl x \<Rightarrow> Inl x
       | Inr es' \<Rightarrow> cql2_loop E data fs es')"
    by (simp split: sum.splits prod.splits)
  show ?case
    unfolding step cql2_turn_eq[OF ev]
    by (cases "cql2_outcome E data f") (simp_all add: rest List.map_filter_simps)
qed

lemma report_eq:
  "report es =
     (if es = [] then Inr None
      else if 1000 < length es then Inl (ValidationError ''BusinessRuleViolation'')
      else Inr (Some (violation_report es)))"
  by (simp add: report_def BusinessRuleViolation_def violation_report_def)

lemma ex_filter_outcomes:
  "List.map_filter (cql2_outcome ex_cql2 ex_inputs) (cv_queries ex_filter) =
     [error_detail ''q3''
        ''Filter does not look like a valid CQL2 Text encoded sentece: Unexpected end of input'',
      error_detail ''q1'' ''out of area'',
      error_detail ''q4'' ''Filter is expressed in an unrecognizible format: <class 'int'>'']"
  by (simp add: List.map_filter_simps cql2_outcome_def parse_failure_def cql2_ast_def
        ex_filter_def q_empty_def q_small_def q_area_def q_number_def ex_cql2_def ex_inputs_def)

lemma ex_filter_evaluates:
  "\<forall>f\<in>set (cv_queries ex_filter). evaluates ex_cql2 ex_inputs f"
  by (simp add: evaluates_def cql2_ast_def
        ex_filter_def q_empty_def q_small_def q_area_def q_number_def ex_cql2_def ex_inputs_def)

text \<open>
  C6, as amended. Take a filter validator and an input on which every query that parses
  is evaluated (its tree is one Python counts as true and its predicate gives true or
  false). Each query contributes by itself, in declaration order: one entry with the
  parse error (or the unrecognised format) and the query id as pointer when it does not
  parse, one entry with the declared message and the query id as pointer when its
  predicate is false, nothing when its predicate is true. The validator returns none
  when there is no entry, and the report of these entries when each fits the limits of
  the error model (text of at most 4096 characters, pointer of at most 1024) and there
  are at most 1000 of them. It raises the validation error of \<open>ErrorDetail\<close> when an
  entry does not fit, and that of \<open>BusinessRuleViolation\<close> when all fit and there are
  more than 1000.
\<close>

theorem cql2_validate_outcomes:
  assumes "\<forall>f\<in>set (cv_queries self). evaluates E data f"
    and "ds = List.map_filter (cql2_outcome E data) (cv_queries self)"
  shows "Cql2Validator_validate_inputs E self data =
           (if \<not> list_all within_limits ds then Inl (ValidationError ''ErrorDetail'')
            else if ds = [] then Inr None
            else if 1000 < length ds then Inl (ValidationError ''BusinessRuleViolation'')
            else Inr (Some (violation_report ds)))"
  using assms
  by (simp add: Cql2Validator_validate_inputs_def cql2_loop_eq report_eq)

theorem cql2_validate_outcomes_witness:
  "list_all (evaluates ex_cql2 ex_inputs) (cv_queries ex_filter) \<and>
   list_all within_limits
     (List.map_filter (cql2_outcome ex_cql2 ex_inputs) (cv_queries ex_filter)) \<and>
   Cql2Validator_validate_inputs ex_cql2 ex_filter ex_inputs =
     Inr (Some (violation_report
       [error_detail ''q3''
          ''Filter does not look like a valid CQL2 Text encoded sentece: Unexpected end of input'',
        error_detail ''q1'' ''out of area'',
        error_detail ''q4'' ''Filter is expressed in an unrecognizible format: <class 'int'>'']))"
proof -
  let ?ds = "List.map_filter (cql2_outcome ex_cql2 ex_inputs) (cv_queries ex_filter)"
  have lim: "list_all within_limits ?ds"
    by (simp add: ex_filter_outcomes within_limits_def error_detail_def)
  from cql2_validate_outcomes[OF ex_filter_evaluates refl] lim ex_filter_evaluates
  show ?thesis
    by (simp add: ex_filter_outcomes list_all_iff)
qed

text \<open>
  The claim as stated fails in three ways. A query that parses and whose predicate is
  false gives no entry but an exception when its message is too long for the error
  model. A query that does not parse gives no entry when the predicate of a later query
  raises. And a query that parses to a tree Python counts as false gives no entry though
  its predicate is false.
\<close>

theorem cql2_claim_counterexample:
  "(cql2_ast ex_cql2 q_long = Some ''inside'' \<and>
    evaluate ex_cql2 ''inside'' ex_inputs = Inr False \<and>
    Cql2Validator_validate_inputs ex_cql2 \<lparr>cv_queries = [q_long]\<rparr> ex_inputs =
      Inl (ValidationError ''ErrorDetail'')) \<and>
   (cql2_ast ex_cql2 q_empty = None \<and>
    Cql2Validator_validate_inputs ex_cql2 \<lparr>cv_queries = [q_empty, q_crash]\<rparr> ex_inputs =
      Inl (KeyError ''absent'')) \<and>
   (cql2_ast ex_cql2_falsy q_area = Some ''inside'' \<and>
    evaluate ex_cql2_falsy ''inside'' ex_inputs = Inr False \<and>
    Cql2Validator_validate_inputs ex_cql2_falsy \<lparr>cv_queries = [q_area]\<rparr> ex_inputs = Inr None)"
  by (simp add: Cql2Validator_validate_inputs_def cql2_parse_def cql2_check_def cql2_ast_def
        append_error_def new_ErrorDetail_def report_def
        q_long_def q_empty_def q_crash_def q_area_def ex_cql2_falsy_def ex_cql2_def ex_inputs_def)

section \<open>Properties of the policy validator\<close>

lemma append_error_not_str:
  "\<forall>s. d \<noteq> JStr s \<Longrightarrow> append_error es p d = Inl (ValidationError ''ErrorDetail'')"
  by (cases d) (simp_all add: append_error_def new_ErrorDetail_def)

text \<open>The inner loop: the entries of the rows, or the exception of the first row without one.\<close>

lemma rego_results_loop_eq:
  "rego_results_loop query results es =
     (if list_all string_row results \<and>
         list_all within_limits (List.map_filter (row_detail query) results)
      then Inr (es @ List.map_filter (row_detail query) results)
      else Inl (ValidationError ''ErrorDetail''))"
proof (induction results arbitrary: es)
  case Nil
  show ?case by (simp add: List.map_filter_simps)
next
  case (Cons r rs)
  show ?case
  proof (cases "expressions r")
    case Nil
    then have "row_detail query r = None" "string_row r"
      by (simp_all add: row_detail_def string_row_def)
    with Nil show ?thesis
      by (simp add: Cons.IH List.map_filter_simps)
  next
    case (Cons e0 rest)
    show ?thesis
    proof (cases "\<exists>s. e0 = JStr s")
      case True
      then obtain s where s: "e0 = JStr s" ..
      with Cons have "row_detail query r = Some (error_detail query s)" "string_row r"
        by (simp_all add: row_detail_def string_row_def)
      with Cons s show ?thesis
        by (simp add: Cons.IH List.map_filter_simps append_error_str)
    next
      case False
      then have ns: "\<forall>s. e0 \<noteq> JStr s" by simp
      from False Cons have "\<not> string_row r"
        by (cases e0) (simp_all add: string_row_def)
      with Cons append_error_not_str[OF ns] show ?thesis
        by simp
    qed
  qed
qed

lemma rego_loop_eq:
  assumes "\<forall>q\<in>set qs. rego_query R i q = Inr (rows q)"
  shows "rego_loop R i qs es =
           (if list_all string_row (concat (map rows qs)) \<and>
               list_all within_limits
                 (concat (map (\<lambda>q. List.map_filter (row_detail q) (rows q)) qs))
            then Inr (es @ concat (map (\<lambda>q. List.map_filter (row_detail q) (rows q)) qs))
            else Inl (ValidationError ''ErrorDetail''))"
  using assms
proof (induction qs arbitrary: es)
  case Nil
  show ?case by simp
next
  case (Cons q qs)
  have rest: "rego_loop R i qs es' =
           (if list_all string_row (concat (map rows qs)) \<and>
               list_all within_limits
                 (concat (map (\<lambda>q. List.map_filter (row_detail q) (rows q)) qs))
            then Inr (es' @ concat (map (\<lambda>q. List.map_filter (row_detail q) (rows q)) qs))
            else Inl (ValidationError ''ErrorDetail''))" for es'
    using Cons.prems by (intro Cons.IH) simp
  from Cons.prems have q: "rego_query R i q = Inr (rows q)"
    by simp
  show ?case
    by (simp add: q rego_results_loop_eq rest)
qed

lemma ex_policy_rows:
  "rego_query ex_rego (set_input (rv_rego ex_policy) ex_policy_inputs) ''small'' = Inr []"
  "rego_query ex_rego (set_input (rv_rego ex_policy) ex_policy_inputs) ''area'' =
     Inr [\<lparr>expressions = [JStr ''missing input area'']\<rparr>]"
  "rego_query ex_rego (set_input (rv_rego ex_policy) ex_policy_inputs) ''denied'' =
     Inr [\<lparr>expressions = [JStr ''too large'', JStr ''ignored'']\<rparr>, \<lparr>expressions = []\<rparr>,
          \<lparr>expressions = [JStr ''too far'']\<rparr>]"
  by (simp_all add: ex_rego_def set_input_def ex_policy_def ex_policy_inputs_def)

text \<open>
  C7, as amended. The input mapping is set as the interpreter's input, and stays set,
  and every declared query is evaluated in that state. When no query raises, every
  result row that has an expression contributes one entry, in the order of the queries
  and of their rows, with the query as pointer and the first expression as text; a row
  with no expression and a query with no rows contribute nothing. The validator returns
  none when there is no entry, and the report of these entries when the first
  expression of every such row is a string, each entry fits the limits of the error
  model (text of at most 4096 characters, pointer of at most 1024) and there are at most
  1000 of them. It raises the validation error of \<open>ErrorDetail\<close> when a first expression
  is not a string or an entry does not fit, and that of \<open>BusinessRuleViolation\<close> when
  all are strings and fit and there are more than 1000.
\<close>

theorem rego_validate_rows:
  assumes "\<forall>q\<in>set (rv_queries self). rego_query R (set_input (rv_rego self) data) q = Inr (rows q)"
    and "ds = concat (map (\<lambda>q. List.map_filter (row_detail q) (rows q)) (rv_queries self))"
  shows "RegoValidator_validate_inputs R self data =
           (if \<not> (list_all string_row (concat (map rows (rv_queries self))) \<and>
                   list_all within_limits ds)
            then Inl (ValidationError ''ErrorDetail'')
            else if ds = [] then Inr None
            else if 1000 < length ds then Inl (ValidationError ''BusinessRuleViolation'')
            else Inr (Some (violation_report ds)),
            self\<lparr>rv_rego := (rv_rego self)\<lparr>it_input := Some data\<rparr>\<rparr>)"
proof -
  have "rego_loop R (set_input (rv_rego self) data) (rv_queries self) [] =
          (if list_all string_row (concat (map rows (rv_queries self))) \<and>
              list_all within_limits ds
           then Inr ([] @ ds) else Inl (ValidationError ''ErrorDetail''))"
    unfolding assms(2) using assms(1) by (rule rego_loop_eq)
  then show ?thesis
    by (simp add: RegoValidator_validate_inputs_def Let_def report_eq set_input_def)
qed

theorem rego_validate_rows_witness:
  "RegoValidator_validate_inputs ex_rego ex_policy ex_policy_inputs =
     (Inr (Some (violation_report
        [error_detail ''area'' ''missing input area'',
         error_detail ''denied'' ''too large'',
         error_detail ''denied'' ''too far''])),
      ex_policy\<lparr>rv_rego := (rv_rego ex_policy)\<lparr>it_input := Some ex_policy_inputs\<rparr>\<rparr>)"
proof -
  let ?rows = "\<lambda>q. case rego_query ex_rego (set_input (rv_rego ex_policy) ex_policy_inputs) q of
                      Inr rs \<Rightarrow> rs | Inl e \<Rightarrow> []"
  let ?ds = "concat (map (\<lambda>q. List.map_filter (row_detail q) (?rows q)) (rv_queries ex_policy))"
  have qs: "rv_queries ex_policy = [''small'', ''area'', ''denied'']"
    by (simp add: ex_policy_def)
  have ds: "?ds = [error_detail ''area'' ''missing input area'',
                   error_detail ''denied'' ''too large'',
                   error_detail ''denied'' ''too far'']"
    by (simp add: qs ex_policy_rows List.map_filter_simps row_detail_def)
  have a1: "\<forall>q\<in>set (rv_queries ex_policy).
      rego_query ex_rego (set_input (rv_rego ex_policy) ex_policy_inputs) q = Inr (?rows q)"
    by (simp add: qs ex_policy_rows)
  have a2: "list_all string_row (concat (map ?rows (rv_queries ex_policy)))"
    by (simp add: qs ex_policy_rows string_row_def)
  have a4: "list_all within_limits ?ds"
    unfolding ds by (simp add: within_limits_def error_detail_def)
  from rego_validate_rows[OF a1 refl] a2 a4 show ?thesis
    unfolding ds by simp
qed

text \<open>
  The claim as stated fails in two ways. A result row whose first expression is not a
  string gives no entry but an exception. And a result row with a string expression
  gives no entry when a later query raises.
\<close>

theorem rego_claim_counterexample:
  "(rego_query ex_rego (set_input (rv_rego ex_policy) ex_bool_inputs) ''small'' =
      Inr [\<lparr>expressions = [JBool False]\<rparr>] \<and>
    fst (RegoValidator_validate_inputs ex_rego ex_policy ex_bool_inputs) =
      Inl (ValidationError ''ErrorDetail'')) \<and>
   (rego_query ex_rego (set_input (rv_rego ex_policy) ex_raise_inputs) ''small'' =
      Inr [\<lparr>expressions = [JStr ''missing input small'']\<rparr>] \<and>
    fst (RegoValidator_validate_inputs ex_rego ex_policy ex_raise_inputs) =
      Inl (EngineError ''undefined input area''))"
  by (simp add: RegoValidator_validate_inputs_def Let_def ex_rego_def set_input_def
        ex_policy_def ex_bool_inputs_def ex_raise_inputs_def append_error_def new_ErrorDetail_def)

section \<open>Properties of every validator\<close>

lemma rego_validate_Some:
  "RegoValidator_validate_inputs R v data = (Inr (Some p), v') \<Longrightarrow> \<exists>es. report es = Inr (Some p)"
  by (auto simp: RegoValidator_validate_inputs_def Let_def split: sum.splits)

lemma cql2_validate_Some:
  "Cql2Validator_validate_inputs E v data = Inr (Some p) \<Longrightarrow> \<exists>es. report es = Inr (Some p)"
  by (auto simp: Cql2Validator_validate_inputs_def split: sum.splits)

text \<open>
  C8. A report returned by a filter or a policy validator is of the
  business-rule-violation kind: its type, status (422) and title are the constants of
  that kind, and its list of errors is present and not empty.
\<close>

theorem report_is_business_rule_violation:
  assumes "filter_or_policy v"
    and "fst (validate_inputs V v data) = Inr (Some p)"
  shows "pd_type p = Some ''https://problems-registry.smartbear.com/business-rule-violation'' \<and>
         pd_status p = Some 422 \<and>
         pd_title p = Some ''Business Rule Violation'' \<and>
         (\<exists>es. pd_errors p = Some es \<and> es \<noteq> [])"
proof -
  from assms have "\<exists>es. report es = Inr (Some p)"
    by (cases v) (auto dest: rego_validate_Some cql2_validate_Some split: prod.splits)
  then obtain es where "report es = Inr (Some p)" ..
  from report_Some[OF this] show ?thesis by simp
qed

theorem report_is_business_rule_violation_witness:
  "filter_or_policy (Cql2ValidatorObj ex_filter) \<and>
   (\<exists>p. fst (validate_inputs ex_env (Cql2ValidatorObj ex_filter) ex_inputs) = Inr (Some p) \<and>
        pd_type p = Some ''https://problems-registry.smartbear.com/business-rule-violation'' \<and>
        pd_status p = Some 422 \<and>
        pd_title p = Some ''Business Rule Violation'' \<and>
        (\<exists>es. pd_errors p = Some es \<and> es \<noteq> []))"
proof -
  have k: "filter_or_policy (Cql2ValidatorObj ex_filter)"
    by simp
  obtain p where run: "fst (validate_inputs ex_env (Cql2ValidatorObj ex_filter) ex_inputs) = Inr (Some p)"
    using ex_filter_run by (simp add: ex_env_def)
  from report_is_business_rule_violation[OF k run] k run show ?thesis
    by blast
qed

section \<open>Properties of the hint resolver\<close>

lemma starts_with_set: "starts_with p s \<Longrightarrow> set p \<subseteq> set s"
  by (induction p s rule: starts_with.induct) auto

lemma py_contains_set: "py_contains p s \<Longrightarrow> set p \<subseteq> set s"
proof (induction s)
  case Nil
  then show ?case using starts_with_set[of p "[]"] by simp
next
  case (Cons a s)
  from Cons.prems have "starts_with p (a # s) \<or> py_contains p s" by simp
  then show ?case
  proof
    assume "starts_with p (a # s)"
    then show ?thesis by (rule starts_with_set)
  next
    assume "py_contains p s"
    with Cons.IH show ?thesis by auto
  qed
qed

lemma new_JSONSchemaHint_Inr:
  "new_JSONSchemaHint parent kw = Inr h \<Longrightarrow>
     class_name h = ''JSONSchemaHint'' \<and> parent_workflow h = parent"
  by (auto simp: new_JSONSchemaHint_def split: option.splits jvalue.splits)

lemma new_RegoPolicyHint_Inr:
  "new_RegoPolicyHint parent kw = Inr h \<Longrightarrow>
     class_name h = ''RegoPolicyHint'' \<and> parent_workflow h = parent"
  by (auto simp: new_RegoPolicyHint_def split: option.splits prod.splits)

lemma new_Cql2FilterHint_Inr:
  "new_Cql2FilterHint parent kw = Inr h \<Longrightarrow>
     class_name h = ''Cql2FilterHint'' \<and> parent_workflow h = parent"
  by (auto simp: new_Cql2FilterHint_def split: option.splits)

lemma call_global_other:
  "name \<notin> {''JSONSchemaHint'', ''RegoPolicyHint'', ''Cql2FilterHint'', ''Cql2Query'',
             ''AssertionHint'', ''BaseValidator''} \<Longrightarrow>
   call_global ext name parent hint = map_sum id OtherObj (ext name parent hint)"
  unfolding call_global_def by (simp only: if_False)

lemma call_global_clash:
  "name \<in> {''JSONSchemaHint'', ''RegoPolicyHint'', ''Cql2FilterHint'', ''Cql2Query'',
             ''AssertionHint'', ''BaseValidator''} \<Longrightarrow>
   map_of hint ''parent_workflow'' \<noteq> None \<Longrightarrow>
   call_global ext name parent hint = Inl (TypeError ''parent_workflow'')"
  unfolding call_global_def by (simp only: if_True not_False_eq_True)

lemma call_global_known:
  assumes "map_of hint ''parent_workflow'' = None"
  shows "call_global ext ''JSONSchemaHint'' parent hint =
           map_sum id HintObj (new_JSONSchemaHint parent hint)"
    and "call_global ext ''RegoPolicyHint'' parent hint =
           map_sum id HintObj (new_RegoPolicyHint parent hint)"
    and "call_global ext ''Cql2FilterHint'' parent hint =
           map_sum id HintObj (new_Cql2FilterHint parent hint)"
    and "call_global ext ''Cql2Query'' parent hint = map_sum id QueryObj (new_Cql2Query hint)"
    and "call_global ext ''AssertionHint'' parent hint = Inl (TypeError ''AssertionHint'')"
    and "call_global ext ''BaseValidator'' parent hint = Inl (TypeError ''BaseValidator'')"
  using assms by (simp_all add: call_global_def)

lemma in_six:
  assumes "x \<in> {a, b, c, d, e, f}"
  obtains "x = a" | "x = b" | "x = c" | "x = d" | "x = e" | "x = f"
  using assms by blast

text \<open>A hint comes out of the call only under the name of its own class.\<close>

lemma call_global_hint:
  assumes "call_global ext name parent hint = Inr (HintObj h)"
  shows "name = class_name h \<and> parent_workflow h = parent \<and>
         map_of hint ''parent_workflow'' = None"
proof -
  let ?S = "{''JSONSchemaHint'', ''RegoPolicyHint'', ''Cql2FilterHint'', ''Cql2Query'',
             ''AssertionHint'', ''BaseValidator''}"
  have n: "name \<in> ?S"
  proof (rule ccontr)
    assume "name \<notin> ?S"
    from call_global_other[OF this] assms show False
      by (cases "ext name parent hint") simp_all
  qed
  have k: "map_of hint ''parent_workflow'' = None"
  proof (rule ccontr)
    assume "map_of hint ''parent_workflow'' \<noteq> None"
    from call_global_clash[OF n this] assms show False by simp
  qed
  note K = call_global_known[OF k]
  from n show ?thesis
  proof (cases rule: in_six)
    case 1
    with assms K(1) have "new_JSONSchemaHint parent hint = Inr h"
      by (cases "new_JSONSchemaHint parent hint") simp_all
    from new_JSONSchemaHint_Inr[OF this] 1 k show ?thesis by simp
  next
    case 2
    with assms K(2) have "new_RegoPolicyHint parent hint = Inr h"
      by (cases "new_RegoPolicyHint parent hint") simp_all
    from new_RegoPolicyHint_Inr[OF this] 2 k show ?thesis by simp
  next
    case 3
    with assms K(3) have "new_Cql2FilterHint parent hint = Inr h"
      by (cases "new_Cql2FilterHint parent hint") simp_all
    from new_Cql2FilterHint_Inr[OF this] 3 k show ?thesis by simp
  next
    case 4
    with assms K(4) show ?thesis
      by (cases "new_Cql2Query hint") simp_all
  next
    case 5
    with assms K(5) show ?thesis by simp
  next
    case 6
    with assms K(6) show ?thesis by simp
  qed
qed

text \<open>The resolver on a record whose discriminator is a string.\<close>

lemma resolver_str:
  assumes "map_of hint ''class'' = Some (JStr s)"
  shows "get_assertion_hint_by_name ext parent hint =
           (if \<not> py_contains ''eoap:'' s
            then (Inr None, [(DEBUG, [Lit ''Analysing hint: '', Val (JStr s)])])
            else case call_global ext (last (py_split CHR '':'' s)) parent hint of
                   Inr obj \<Rightarrow>
                     (Inr (Some obj),
                      [(DEBUG, [Lit ''Analysing hint: '', Val (JStr s)]),
                       (DEBUG, [Lit ''Mapping '', Val (JStr s), Lit '' to AssertionHint:''])])
                 | Inl e \<Rightarrow>
                     (Inr None,
                      [(DEBUG, [Lit ''Analysing hint: '', Val (JStr s)]),
                       (DEBUG, [Lit ''Mapping '', Val (JStr s), Lit '' to AssertionHint:'']),
                       (ERROR, [Lit ''An error occurred while mapping '', Val (JStr s),
                                Lit '' to AssertionHint: '', Exc e])]))"
  using assms
  by (simp add: get_assertion_hint_by_name_def Let_def split: sum.splits)

lemma resolver_Some:
  assumes "get_assertion_hint_by_name ext parent hint = (Inr (Some obj), l)"
  shows "\<exists>s. map_of hint ''class'' = Some (JStr s) \<and> py_contains ''eoap:'' s \<and>
             call_global ext (last (py_split CHR '':'' s)) parent hint = Inr obj"
  using assms
  by (auto simp: get_assertion_hint_by_name_def Let_def
           split: option.splits sum.splits bool.splits jvalue.splits)

lemma resolver_hint:
  assumes "get_assertion_hint_by_name ext parent hint = (Inr (Some (HintObj h)), l)"
  shows "\<exists>s. map_of hint ''class'' = Some (JStr s) \<and> py_contains ''eoap:'' s \<and>
             last (py_split CHR '':'' s) = class_name h \<and>
             call_global ext (class_name h) parent hint = Inr (HintObj h) \<and>
             parent_workflow h = parent"
proof -
  from resolver_Some[OF assms] obtain s where
    s: "map_of hint ''class'' = Some (JStr s)" "py_contains ''eoap:'' s"
       "call_global ext (last (py_split CHR '':'' s)) parent hint = Inr (HintObj h)"
    by blast
  from call_global_hint[OF s(3)] s show ?thesis
    by auto
qed

lemma class_name_cases:
  "class_name h \<in> {''JSONSchemaHint'', ''RegoPolicyHint'', ''Cql2FilterHint''}"
  by (cases h) simp_all

lemma ex_resolved:
  "get_assertion_hint_by_name ex_ext None r_schema =
     (Inr (Some (HintObj (JSONSchemaHint None [(''type'', JStr ''object'')]))),
      [(DEBUG, [Lit ''Analysing hint: '', Val (JStr ''eoap:JSONSchemaHint'')]),
       (DEBUG, [Lit ''Mapping '', Val (JStr ''eoap:JSONSchemaHint''), Lit '' to AssertionHint:''])])"
  "get_assertion_hint_by_name ex_ext None r_policy =
     (Inr (Some (HintObj ex_policy_hint)),
      [(DEBUG, [Lit ''Analysing hint: '', Val (JStr ''eoap:RegoPolicyHint'')]),
       (DEBUG, [Lit ''Mapping '', Val (JStr ''eoap:RegoPolicyHint''), Lit '' to AssertionHint:''])])"
  by (simp_all add: get_assertion_hint_by_name_def call_global_def new_JSONSchemaHint_def
        new_RegoPolicyHint_def r_schema_def r_policy_def ex_policy_hint_def)

text \<open>
  C2, as amended. The resolver produces a Hint only when the \<open>class\<close> discriminator of
  the record is a string that contains \<open>eoap:\<close>, at its start or anywhere else, and the
  text after its last colon is the class name of the hint's kind, one of
  \<open>JSONSchemaHint\<close>, \<open>RegoPolicyHint\<close> and \<open>Cql2FilterHint\<close>. A record whose
  discriminator is a string without \<open>eoap:\<close> is skipped, with nothing logged but the
  line that names it. A record with \<open>eoap:\<close> for which the call of the kind name raises
  (the module binds no such name, what it binds cannot be called so, or the construction
  fails) is dropped and the exception is logged as an error. A record with \<open>eoap:\<close> for
  which the call returns an object yields that object; when the kind name is outside the
  three, the object is no Hint.
\<close>

theorem resolver_hint_only_for_class_name:
  "(\<forall>h l. get_assertion_hint_by_name ext parent hint = (Inr (Some (HintObj h)), l) \<longrightarrow>
      (\<exists>s. map_of hint ''class'' = Some (JStr s) \<and> py_contains ''eoap:'' s \<and>
           last (py_split CHR '':'' s) = class_name h \<and>
           class_name h \<in> {''JSONSchemaHint'', ''RegoPolicyHint'', ''Cql2FilterHint''})) \<and>
   (\<forall>s. map_of hint ''class'' = Some (JStr s) \<and> \<not> py_contains ''eoap:'' s \<longrightarrow>
      get_assertion_hint_by_name ext parent hint =
        (Inr None, [(DEBUG, [Lit ''Analysing hint: '', Val (JStr s)])])) \<and>
   (\<forall>s e. map_of hint ''class'' = Some (JStr s) \<and> py_contains ''eoap:'' s \<and>
          call_global ext (last (py_split CHR '':'' s)) parent hint = Inl e \<longrightarrow>
      get_assertion_hint_by_name ext parent hint =
        (Inr None,
         [(DEBUG, [Lit ''Analysing hint: '', Val (JStr s)]),
          (DEBUG, [Lit ''Mapping '', Val (JStr s), Lit '' to AssertionHint:'']),
          (ERROR, [Lit ''An error occurred while mapping '', Val (JStr s),
                   Lit '' to AssertionHint: '', Exc e])])) \<and>
   (\<forall>s obj. map_of hint ''class'' = Some (JStr s) \<and> py_contains ''eoap:'' s \<and>
          call_global ext (last (py_split CHR '':'' s)) parent hint = Inr obj \<longrightarrow>
      get_assertion_hint_by_name ext parent hint =
        (Inr (Some obj),
         [(DEBUG, [Lit ''Analysing hint: '', Val (JStr s)]),
          (DEBUG, [Lit ''Mapping '', Val (JStr s), Lit '' to AssertionHint:''])])) \<and>
   (\<forall>s obj. map_of hint ''class'' = Some (JStr s) \<and> py_contains ''eoap:'' s \<and>
          last (py_split CHR '':'' s) \<notin> {''JSONSchemaHint'', ''RegoPolicyHint'', ''Cql2FilterHint''} \<and>
          call_global ext (last (py_split CHR '':'' s)) parent hint = Inr obj \<longrightarrow>
      (\<forall>h. obj \<noteq> HintObj h))"
proof (intro conjI allI impI)
  fix h l
  assume "get_assertion_hint_by_name ext parent hint = (Inr (Some (HintObj h)), l)"
  from resolver_hint[OF this] class_name_cases[of h]
  show "\<exists>s. map_of hint ''class'' = Some (JStr s) \<and> py_contains ''eoap:'' s \<and>
           last (py_split CHR '':'' s) = class_name h \<and>
           class_name h \<in> {''JSONSchemaHint'', ''RegoPolicyHint'', ''Cql2FilterHint''}"
    by blast
next
  fix s
  assume "map_of hint ''class'' = Some (JStr s) \<and> \<not> py_contains ''eoap:'' s"
  then show "get_assertion_hint_by_name ext parent hint =
        (Inr None, [(DEBUG, [Lit ''Analysing hint: '', Val (JStr s)])])"
    by (simp add: resolver_str)
next
  fix s e
  assume "map_of hint ''class'' = Some (JStr s) \<and> py_contains ''eoap:'' s \<and>
          call_global ext (last (py_split CHR '':'' s)) parent hint = Inl e"
  then show "get_assertion_hint_by_name ext parent hint =
        (Inr None,
         [(DEBUG, [Lit ''Analysing hint: '', Val (JStr s)]),
          (DEBUG, [Lit ''Mapping '', Val (JStr s), Lit '' to AssertionHint:'']),
          (ERROR, [Lit ''An error occurred while mapping '', Val (JStr s),
                   Lit '' to AssertionHint: '', Exc e])])"
    by (simp add: resolver_str)
next
  fix s obj
  assume "map_of hint ''class'' = Some (JStr s) \<and> py_contains ''eoap:'' s \<and>
          call_global ext (last (py_split CHR '':'' s)) parent hint = Inr obj"
  then show "get_assertion_hint_by_name ext parent hint =
        (Inr (Some obj),
         [(DEBUG, [Lit ''Analysing hint: '', Val (JStr s)]),
          (DEBUG, [Lit ''Mapping '', Val (JStr s), Lit '' to AssertionHint:''])])"
    by (simp add: resolver_str)
next
  fix s obj h
  assume a: "map_of hint ''class'' = Some (JStr s) \<and> py_contains ''eoap:'' s \<and>
          last (py_split CHR '':'' s) \<notin> {''JSONSchemaHint'', ''RegoPolicyHint'', ''Cql2FilterHint''} \<and>
          call_global ext (last (py_split CHR '':'' s)) parent hint = Inr obj"
  show "obj \<noteq> HintObj h"
  proof
    assume "obj = HintObj h"
    with a have "call_global ext (last (py_split CHR '':'' s)) parent hint = Inr (HintObj h)"
      by simp
    from call_global_hint[OF this] class_name_cases[of h] a show False
      by metis
  qed
qed

theorem resolver_hint_only_for_class_name_witness:
  "get_assertion_hint_by_name ex_ext None r_policy =
     (Inr (Some (HintObj ex_policy_hint)),
      [(DEBUG, [Lit ''Analysing hint: '', Val (JStr ''eoap:RegoPolicyHint'')]),
       (DEBUG, [Lit ''Mapping '', Val (JStr ''eoap:RegoPolicyHint''), Lit '' to AssertionHint:''])]) \<and>
   (\<exists>s. map_of r_policy ''class'' = Some (JStr s) \<and> py_contains ''eoap:'' s \<and>
        last (py_split CHR '':'' s) = ''RegoPolicyHint'') \<and>
   get_assertion_hint_by_name ex_ext None r_other =
     (Inr None, [(DEBUG, [Lit ''Analysing hint: '', Val (JStr ''cwltool:Secrets'')])]) \<and>
   get_assertion_hint_by_name ex_ext None r_unknown =
     (Inr None,
      [(DEBUG, [Lit ''Analysing hint: '', Val (JStr ''eoap:schema'')]),
       (DEBUG, [Lit ''Mapping '', Val (JStr ''eoap:schema''), Lit '' to AssertionHint:'']),
       (ERROR, [Lit ''An error occurred while mapping '', Val (JStr ''eoap:schema''),
                Lit '' to AssertionHint: '', Exc (KeyError ''schema'')])]) \<and>
   fst (get_assertion_hint_by_name ex_ext None
          [(''class'', JStr ''eoap:BaseModel'')]) = Inr (Some (OtherObj ''BaseModel''))"
proof -
  note T1 = resolver_hint_only_for_class_name[of ex_ext None r_policy]
  note T2 = resolver_hint_only_for_class_name[of ex_ext None r_other]
  note T3 = resolver_hint_only_for_class_name[of ex_ext None r_unknown]
  note T4 = resolver_hint_only_for_class_name[of ex_ext None "[(''class'', JStr ''eoap:BaseModel'')]"]
  have c1: "\<exists>s. map_of r_policy ''class'' = Some (JStr s) \<and> py_contains ''eoap:'' s \<and>
        last (py_split CHR '':'' s) = ''RegoPolicyHint''"
    using T1 ex_resolved(2) by (auto simp: ex_policy_hint_def)
  have h2: "map_of r_other ''class'' = Some (JStr ''cwltool:Secrets'') \<and>
            \<not> py_contains ''eoap:'' ''cwltool:Secrets''"
    by (simp add: r_other_def)
  have c2: "get_assertion_hint_by_name ex_ext None r_other =
     (Inr None, [(DEBUG, [Lit ''Analysing hint: '', Val (JStr ''cwltool:Secrets'')])])"
    using T2 h2 by blast
  have h3: "map_of r_unknown ''class'' = Some (JStr ''eoap:schema'') \<and>
            py_contains ''eoap:'' ''eoap:schema'' \<and>
            call_global ex_ext (last (py_split CHR '':'' ''eoap:schema'')) None r_unknown =
              Inl (KeyError ''schema'')"
    by (simp add: r_unknown_def call_global_def ex_ext_def)
  have c3: "get_assertion_hint_by_name ex_ext None r_unknown =
     (Inr None,
      [(DEBUG, [Lit ''Analysing hint: '', Val (JStr ''eoap:schema'')]),
       (DEBUG, [Lit ''Mapping '', Val (JStr ''eoap:schema''), Lit '' to AssertionHint:'']),
       (ERROR, [Lit ''An error occurred while mapping '', Val (JStr ''eoap:schema''),
                Lit '' to AssertionHint: '', Exc (KeyError ''schema'')])])"
    using T3 h3 by blast
  have h4: "map_of [(''class'', JStr ''eoap:BaseModel'')] ''class'' = Some (JStr ''eoap:BaseModel'') \<and>
            py_contains ''eoap:'' ''eoap:BaseModel'' \<and>
            call_global ex_ext (last (py_split CHR '':'' ''eoap:BaseModel'')) None
              [(''class'', JStr ''eoap:BaseModel'')] = Inr (OtherObj ''BaseModel'')"
    by (simp add: call_global_def ex_ext_def)
  have c4: "fst (get_assertion_hint_by_name ex_ext None
          [(''class'', JStr ''eoap:BaseModel'')]) = Inr (Some (OtherObj ''BaseModel''))"
  proof -
    from T4 h4 have "get_assertion_hint_by_name ex_ext None [(''class'', JStr ''eoap:BaseModel'')] =
        (Inr (Some (OtherObj ''BaseModel'')),
         [(DEBUG, [Lit ''Analysing hint: '', Val (JStr ''eoap:BaseModel'')]),
          (DEBUG, [Lit ''Mapping '', Val (JStr ''eoap:BaseModel''), Lit '' to AssertionHint:''])])"
      by blast
    then show ?thesis by simp
  qed
  from ex_resolved(2) c1 c2 c3 c4 show ?thesis
    by blast
qed

text \<open>
  The claim as stated fails on a discriminator that has \<open>eoap:\<close> inside and not as its
  prefix, and on one whose text after the prefix is no kind name: both records resolve
  to a Hint.
\<close>

theorem resolver_prefix_counterexample:
  "map_of r_foreign ''class'' = Some (JStr ''x-eoap:JSONSchemaHint'') \<and>
   \<not> starts_with ''eoap:'' ''x-eoap:JSONSchemaHint'' \<and>
   fst (get_assertion_hint_by_name ex_ext None r_foreign) =
     Inr (Some (HintObj (JSONSchemaHint None []))) \<and>
   map_of r_nested ''class'' = Some (JStr ''eoap:v1:RegoPolicyHint'') \<and>
   starts_with ''eoap:'' ''eoap:v1:RegoPolicyHint'' \<and>
   drop (length ''eoap:'') ''eoap:v1:RegoPolicyHint'' = ''v1:RegoPolicyHint'' \<and>
   fst (get_assertion_hint_by_name ex_ext None r_nested) =
     Inr (Some (HintObj (RegoPolicyHint None ''package workflow'' [])))"
  by (simp add: get_assertion_hint_by_name_def call_global_def new_JSONSchemaHint_def
        new_RegoPolicyHint_def r_foreign_def r_nested_def)

lemma annotation_no_colon: "CHR '':'' \<notin> set (annotation h)"
  by (cases h) simp_all

text \<open>
  C4, as amended. The \<open>annotation\<close> of a Hint the resolver produces is a fixed constant
  determined by its kind: \<open>eoap.ogc.org/inputs-json-schema\<close> for a schema hint,
  \<open>eoap.ogc.org/inputs-rego-policy\<close> for a policy hint and
  \<open>eoap.ogc.org/inputs-cql2-filter\<close> for a filter hint. It is not the name under which
  the resolver looked the record up: that \<open>class\<close> discriminator ends, after its last
  colon, in the class name of the kind, and the annotation never equals it.
\<close>

theorem annotation_fixed_per_kind:
  assumes "get_assertion_hint_by_name ext parent hint = (Inr (Some (HintObj h)), l)"
  shows "annotation h =
           (if class_name h = ''JSONSchemaHint'' then ''eoap.ogc.org/inputs-json-schema''
            else if class_name h = ''RegoPolicyHint'' then ''eoap.ogc.org/inputs-rego-policy''
            else ''eoap.ogc.org/inputs-cql2-filter'') \<and>
         (\<exists>s. map_of hint ''class'' = Some (JStr s) \<and>
              last (py_split CHR '':'' s) = class_name h \<and> annotation h \<noteq> s)"
proof
  show "annotation h =
           (if class_name h = ''JSONSchemaHint'' then ''eoap.ogc.org/inputs-json-schema''
            else if class_name h = ''RegoPolicyHint'' then ''eoap.ogc.org/inputs-rego-policy''
            else ''eoap.ogc.org/inputs-cql2-filter'')"
    by (cases h) simp_all
next
  from resolver_hint[OF assms] obtain s where
    s: "map_of hint ''class'' = Some (JStr s)" "py_contains ''eoap:'' s"
       "last (py_split CHR '':'' s) = class_name h"
    by blast
  from py_contains_set[OF s(2)] have "CHR '':'' \<in> set s"
    by simp
  with annotation_no_colon[of h] have "annotation h \<noteq> s"
    by auto
  with s show "\<exists>s. map_of hint ''class'' = Some (JStr s) \<and>
              last (py_split CHR '':'' s) = class_name h \<and> annotation h \<noteq> s"
    by blast
qed

theorem annotation_fixed_per_kind_witness:
  "get_assertion_hint_by_name ex_ext None r_policy =
     (Inr (Some (HintObj ex_policy_hint)),
      [(DEBUG, [Lit ''Analysing hint: '', Val (JStr ''eoap:RegoPolicyHint'')]),
       (DEBUG, [Lit ''Mapping '', Val (JStr ''eoap:RegoPolicyHint''), Lit '' to AssertionHint:''])]) \<and>
   annotation ex_policy_hint = ''eoap.ogc.org/inputs-rego-policy'' \<and>
   (\<exists>s. map_of r_policy ''class'' = Some (JStr s) \<and>
        last (py_split CHR '':'' s) = ''RegoPolicyHint'' \<and> annotation ex_policy_hint \<noteq> s)"
proof -
  from annotation_fixed_per_kind[OF ex_resolved(2)] ex_resolved(2) show ?thesis
    by (simp add: ex_policy_hint_def)
qed

text \<open>
  The claim as stated fails on every resolved record; here, a schema hint, looked up
  under \<open>eoap:JSONSchemaHint\<close>.
\<close>

theorem annotation_counterexample:
  "map_of r_schema ''class'' = Some (JStr ''eoap:JSONSchemaHint'') \<and>
   fst (get_assertion_hint_by_name ex_ext None r_schema) =
     Inr (Some (HintObj (JSONSchemaHint None [(''type'', JStr ''object'')]))) \<and>
   annotation (JSONSchemaHint None [(''type'', JStr ''object'')]) =
     ''eoap.ogc.org/inputs-json-schema'' \<and>
   annotation (JSONSchemaHint None [(''type'', JStr ''object'')]) \<noteq> ''eoap:JSONSchemaHint''"
  by (simp add: ex_resolved(1)) (simp add: r_schema_def)




























section \<open>Properties of the orchestrator\<close>

text \<open>
  The first loop goes on after a hint whose validator cannot be built; the second loop
  stops at the first validator whose \<open>validate_inputs\<close> raises.
\<close>

lemma prepare_continues:
  assumes "obj_validator V hint_instance = Inl e"
  shows "fst (prepare V (hint_instance # rest) validators) = fst (prepare V rest validators)"
  using assms by (cases "prepare V rest validators") (simp add: Let_def)

lemma run_validators_raise:
  assumes "fst (validate_inputs V v inputs) = Inl e"
  shows "run_validators V (v # vs) inputs =
           (Inl e, [(INFO, [Lit ''  - Executing '', Lit (validator_type_name v), Lit ''...''])])"
  using assms by (simp add: Let_def)

lemma ex_workflow_hints:
  "extract_assertion_hints (ext_of ex_env) ex_workflow =
     (Inr [HintObj (Cql2FilterHint (Some ex_workflow) [q_area]),
           HintObj (RegoPolicyHint (Some ex_workflow) ''package workflow'' [''area'', ''denied''])],
      [(DEBUG, [Lit ''Analysing hint: '', Val (JStr ''eoap:Cql2FilterHint'')]),
       (DEBUG, [Lit ''Mapping '', Val (JStr ''eoap:Cql2FilterHint''), Lit '' to AssertionHint:'']),
       (DEBUG, [Lit ''Analysing hint: '', Val (JStr ''eoap:RegoPolicyHint'')]),
       (DEBUG, [Lit ''Mapping '', Val (JStr ''eoap:RegoPolicyHint''), Lit '' to AssertionHint:''])])"
  by (simp add: extract_assertion_hints_def get_assertion_hint_by_name_def call_global_def
        new_Cql2FilterHint_def new_RegoPolicyHint_def validate_Cql2Query_def Let_def
        ex_workflow_def r_filter_def r_policy_def q_area_def ex_env_def)

lemma ex_workflow_validators:
  "prepare ex_env
     [HintObj (Cql2FilterHint (Some ex_workflow) [q_area]),
      HintObj (RegoPolicyHint (Some ex_workflow) ''package workflow'' [''area'', ''denied''])] [] =
     ([Cql2ValidatorObj \<lparr>cv_queries = [q_area]\<rparr>,
       RegoValidatorObj \<lparr>rv_rego = \<lparr>it_modules = [(''workflow'', ''package workflow'')],
                                     it_input = None\<rparr>,
                         rv_queries = [''area'', ''denied'']\<rparr>],
      [(INFO, [Lit ''Setting up validator for '', Lit ''Cql2FilterHint'', Lit ''...'']),
       (INFO, [Lit ''Setting up validator for '', Lit ''RegoPolicyHint'', Lit ''...''])])"
  by (simp add: Let_def RegoValidator_init_def add_module_def ex_env_def ex_rego_def)

lemma ex_filter_raises:
  "fst (validate_inputs ex_env (Cql2ValidatorObj \<lparr>cv_queries = [q_area]\<rparr>) (JDict [])) =
     Inl (KeyError ''inside'')"
  by (simp add: Cql2Validator_validate_inputs_def cql2_parse_def cql2_check_def
        ex_env_def ex_cql2_def q_area_def)

text \<open>
  C1 fails on the code. The workflow declares a filter hint and a policy hint, and both
  validators are built. On the empty input mapping the filter validator's
  \<open>validate_inputs\<close> raises (the evaluation of its query fails), the exception leaves
  \<open>_scan_workflow\<close>, and the policy validator is never run: the log ends with the line
  that announces the filter validator.
\<close>

theorem scan_workflow_stops_at_raise:
  "scan_workflow ex_env ex_workflow (JDict []) =
     (Inl (KeyError ''inside''),
      [(INFO, [Lit ''------------------------------------------------------------------------'']),
       (INFO, [Lit ''Validating #'', Lit ''main'', Lit '' '', Lit ''Workflow'', Lit '' ('',
               Lit ''v1.2'', Lit ''):'']),
       (DEBUG, [Lit ''Analysing hint: '', Val (JStr ''eoap:Cql2FilterHint'')]),
       (DEBUG, [Lit ''Mapping '', Val (JStr ''eoap:Cql2FilterHint''), Lit '' to AssertionHint:'']),
       (DEBUG, [Lit ''Analysing hint: '', Val (JStr ''eoap:RegoPolicyHint'')]),
       (DEBUG, [Lit ''Mapping '', Val (JStr ''eoap:RegoPolicyHint''), Lit '' to AssertionHint:'']),
       (INFO, [Lit ''Setting up validator for '', Lit ''Cql2FilterHint'', Lit ''...'']),
       (INFO, [Lit ''Setting up validator for '', Lit ''RegoPolicyHint'', Lit ''...'']),
       (INFO, [Lit ''Setup is over, validating...'']),
       (INFO, [Lit ''  - Executing '', Lit ''Cql2Validator'', Lit ''...''])]) \<and>
   (INFO, [Lit ''  - Executing '', Lit ''RegoValidator'', Lit ''...''])
     \<notin> set (snd (scan_workflow ex_env ex_workflow (JDict [])))"
proof -
  have id: "last (py_split CHR ''#'' (wf_id ex_workflow)) = ''main''"
       "wf_class ex_workflow = ''Workflow''" "wf_cwlVersion ex_workflow = ''v1.2''"
    by (simp_all add: ex_workflow_def)
  have run: "run_validators ex_env
     [Cql2ValidatorObj \<lparr>cv_queries = [q_area]\<rparr>,
      RegoValidatorObj \<lparr>rv_rego = \<lparr>it_modules = [(''workflow'', ''package workflow'')],
                                    it_input = None\<rparr>,
                        rv_queries = [''area'', ''denied'']\<rparr>] (JDict []) =
     (Inl (KeyError ''inside''), [(INFO, [Lit ''  - Executing '', Lit ''Cql2Validator'', Lit ''...''])])"
    using run_validators_raise[OF ex_filter_raises] by simp
  have "scan_workflow ex_env ex_workflow (JDict []) =
     (Inl (KeyError ''inside''),
      [(INFO, [Lit ''------------------------------------------------------------------------'']),
       (INFO, [Lit ''Validating #'', Lit ''main'', Lit '' '', Lit ''Workflow'', Lit '' ('',
               Lit ''v1.2'', Lit ''):'']),
       (DEBUG, [Lit ''Analysing hint: '', Val (JStr ''eoap:Cql2FilterHint'')]),
       (DEBUG, [Lit ''Mapping '', Val (JStr ''eoap:Cql2FilterHint''), Lit '' to AssertionHint:'']),
       (DEBUG, [Lit ''Analysing hint: '', Val (JStr ''eoap:RegoPolicyHint'')]),
       (DEBUG, [Lit ''Mapping '', Val (JStr ''eoap:RegoPolicyHint''), Lit '' to AssertionHint:'']),
       (INFO, [Lit ''Setting up validator for '', Lit ''Cql2FilterHint'', Lit ''...'']),
       (INFO, [Lit ''Setting up validator for '', Lit ''RegoPolicyHint'', Lit ''...'']),
       (INFO, [Lit ''Setup is over, validating...'']),
       (INFO, [Lit ''  - Executing '', Lit ''Cql2Validator'', Lit ''...''])])"
    by (simp add: scan_workflow_def Let_def id ex_workflow_hints ex_workflow_validators run
          del: prepare.simps run_validators.simps)
  then show ?thesis
    by simp
qed

text \<open>On an input on which no validator raises, the same workflow has both validators run.\<close>

lemma scan_workflow_runs_both:
  "fst (scan_workflow ex_env ex_workflow ex_inputs) = Inr () \<and>
   (INFO, [Lit ''  - Executing '', Lit ''RegoValidator'', Lit ''...''])
     \<in> set (snd (scan_workflow ex_env ex_workflow ex_inputs))"
proof -
  have id: "last (py_split CHR ''#'' (wf_id ex_workflow)) = ''main''"
       "wf_class ex_workflow = ''Workflow''" "wf_cwlVersion ex_workflow = ''v1.2''"
    by (simp_all add: ex_workflow_def)
  have "scan_workflow ex_env ex_workflow ex_inputs =
      (case run_validators ex_env
         [Cql2ValidatorObj \<lparr>cv_queries = [q_area]\<rparr>,
          RegoValidatorObj \<lparr>rv_rego = \<lparr>it_modules = [(''workflow'', ''package workflow'')],
                                        it_input = None\<rparr>,
                            rv_queries = [''area'', ''denied'']\<rparr>] ex_inputs of
         (r, l3) \<Rightarrow>
           (r, [(INFO, [Lit ''------------------------------------------------------------------------'']),
                (INFO, [Lit ''Validating #'', Lit ''main'', Lit '' '', Lit ''Workflow'', Lit '' ('',
                        Lit ''v1.2'', Lit ''):'']),
                (DEBUG, [Lit ''Analysing hint: '', Val (JStr ''eoap:Cql2FilterHint'')]),
                (DEBUG, [Lit ''Mapping '', Val (JStr ''eoap:Cql2FilterHint''), Lit '' to AssertionHint:'']),
                (DEBUG, [Lit ''Analysing hint: '', Val (JStr ''eoap:RegoPolicyHint'')]),
                (DEBUG, [Lit ''Mapping '', Val (JStr ''eoap:RegoPolicyHint''), Lit '' to AssertionHint:'']),
                (INFO, [Lit ''Setting up validator for '', Lit ''Cql2FilterHint'', Lit ''...'']),
                (INFO, [Lit ''Setting up validator for '', Lit ''RegoPolicyHint'', Lit ''...'']),
                (INFO, [Lit ''Setup is over, validating...''])] @ l3))"
    by (simp add: scan_workflow_def Let_def id ex_workflow_hints ex_workflow_validators
          del: prepare.simps run_validators.simps)
  then show ?thesis
    by (simp add: Let_def log_report_def Cql2Validator_validate_inputs_def cql2_parse_def
          cql2_check_def append_error_def new_ErrorDetail_def report_def BusinessRuleViolation_def
          RegoValidator_validate_inputs_def set_input_def
          ex_env_def ex_cql2_def ex_rego_def ex_inputs_def q_area_def)
qed

end
